theory Spec2Isabelle
  imports Main
begin

section \<open>StoryForge simulation core: world state, gates, views, frame loop\<close>

text \<open>
  A shallow embedding of \<^verbatim>\<open>src/core/engine.ts\<close> and of the types of
  \<^verbatim>\<open>src/narrative/types.ts\<close> and \<^verbatim>\<open>src/core/types.ts\<close> that the engine reads.

  Conventions.
  \<^item> Values of TypeScript type \<^verbatim>\<open>unknown\<close> (variable values, gate literals, mutation
    operands) are a type variable \<open>'v\<close>. The operators of the JavaScript runtime that the
    engine applies to them are the fields of a record \<open>jsops\<close>, a parameter of every
    function that uses one. Nothing is assumed about them, so every theorem holds for each
    interpretation of the operators. The spread of a non-iterable and a method call on a
    value without that method raise a \<^verbatim>\<open>TypeError\<close> in JavaScript: those two operators return
    an option, \<open>None\<close> being the exception.
  \<^item> An optional string (\<^verbatim>\<open>x?: string\<close>) is a \<open>string option\<close>. The engine tests presence
    by truthiness (\<^verbatim>\<open>if (x)\<close>, \<^verbatim>\<open>!x\<close>), which is false for \<^verbatim>\<open>undefined\<close> and for the empty
    string: that test is \<open>truthy\<close>.
  \<^item> A JavaScript \<^verbatim>\<open>Map\<close> is an association list in insertion order: \<open>Map_get\<close> reads the
    first entry of a key, \<open>Map_set\<close> overwrites it in place or appends a new entry.
  \<^item> Numbers that count frames are unbounded integers.
  \<^item> An exception leaves the engine object as it was when thrown: a fallible operation
    returns \<open>Inl (error, state at the throw)\<close> or \<open>Inr state\<close>.
  \<^item> Fields that no modelled function reads (names, descriptions, metadata, timestamps,
    the uuid and the constant stage of an event) are left out of the records. The values
    of \<^verbatim>\<open>uuid()\<close> that the engine does use are arguments of the model.
\<close>

subsection \<open>JavaScript runtime\<close>

record 'v jsops =
  js_undefined :: 'v
  js_null :: 'v
  js_strict_eq :: "'v \<Rightarrow> 'v \<Rightarrow> bool"
  js_gt :: "'v \<Rightarrow> 'v \<Rightarrow> bool"
  js_gte :: "'v \<Rightarrow> 'v \<Rightarrow> bool"
  js_lt :: "'v \<Rightarrow> 'v \<Rightarrow> bool"
  js_lte :: "'v \<Rightarrow> 'v \<Rightarrow> bool"
  js_isArray :: "'v \<Rightarrow> bool"
  js_includes :: "'v \<Rightarrow> 'v \<Rightarrow> bool"
  js_add :: "'v \<Rightarrow> 'v \<Rightarrow> 'v"
  js_sub :: "'v \<Rightarrow> 'v \<Rightarrow> 'v"
  js_mul :: "'v \<Rightarrow> 'v \<Rightarrow> 'v"
  js_not :: "'v \<Rightarrow> 'v"
  js_spread_append :: "'v \<Rightarrow> 'v \<Rightarrow> 'v option"
  js_filter_neq :: "'v \<Rightarrow> 'v \<Rightarrow> 'v option"

text \<open>Truthiness of an optional string: \<^verbatim>\<open>undefined\<close> and \<^verbatim>\<open>""\<close> are falsy.\<close>

fun truthy :: "string option \<Rightarrow> bool" where
  "truthy None = False"
| "truthy (Some s) = (s \<noteq> [])"

text \<open>\<^verbatim>\<open>Map.prototype.get\<close>, \<^verbatim>\<open>set\<close> and \<^verbatim>\<open>values\<close>.\<close>

fun Map_get :: "('k \<times> 'a) list \<Rightarrow> 'k \<Rightarrow> 'a option" where
  "Map_get [] k = None"
| "Map_get ((k', v) # m) k = (if k' = k then Some v else Map_get m k)"

fun Map_set :: "'k \<Rightarrow> 'a \<Rightarrow> ('k \<times> 'a) list \<Rightarrow> ('k \<times> 'a) list" where
  "Map_set k v [] = [(k, v)]"
| "Map_set k v ((k', v') # m) = (if k' = k then (k, v) # m else (k', v') # Map_set k v m)"

definition Map_values :: "('k \<times> 'a) list \<Rightarrow> 'a list" where
  "Map_values m = map snd m"

text \<open>\<^verbatim>\<open>Array.prototype.slice(-n)\<close>: the last \<open>n\<close> elements.\<close>

definition slice_last :: "nat \<Rightarrow> 'a list \<Rightarrow> 'a list" where
  "slice_last n xs = drop (length xs - n) xs"

text \<open>\<^verbatim>\<open>Array.prototype.findIndex\<close>: the first index that satisfies the test, or \<open>-1\<close>.\<close>

fun findIndex :: "('a \<Rightarrow> bool) \<Rightarrow> 'a list \<Rightarrow> int" where
  "findIndex P [] = -1"
| "findIndex P (x # xs) =
     (if P x then 0 else (let i = findIndex P xs in if i < 0 then -1 else i + 1))"

subsection \<open>Narrative types\<close>

datatype VariableScope = GLOBAL | AGENT | DYADIC | LOCAL

record 'v Variable =
  var_id :: string
  var_scope :: VariableScope
  var_defaultValue :: 'v

record 'v VariableState =
  vs_variableId :: string
  vs_value :: 'v
  vs_lastModifiedFrame :: int
  vs_modifiedBy :: "string option"

text \<open>
  The operator of a condition is a string at run time; the \<^verbatim>\<open>switch\<close> of
  \<^verbatim>\<open>evaluateCondition\<close> has a \<^verbatim>\<open>default\<close> branch for the strings outside \<^verbatim>\<open>GateOperator\<close>.
\<close>

datatype 'v GateCondition =
  GateCondition (gc_operator: string) (gc_variableId: "string option") (gc_value: 'v)
    (gc_children: "'v GateCondition list option")

record 'v Gate =
  gate_id :: string
  gate_condition :: "'v GateCondition"

record 'v VariableMutation =
  mut_variableId :: string
  mut_operation :: string
  mut_value :: 'v

record 'v Choice =
  ch_id :: string
  ch_text :: string
  ch_gateId :: "string option"
  ch_mutations :: "'v VariableMutation list"
  ch_nextEncounterId :: "string option"
  ch_nextSpoolId :: "string option"
  ch_isTerminal :: "bool option"

record 'v Encounter =
  enc_id :: string
  enc_spoolId :: string
  enc_choices :: "'v Choice list"

datatype SpoolStatus = AVAILABLE | ACTIVE | SUSPENDED | COMPLETED | ABANDONED

record Spool =
  sp_id :: string
  sp_name :: string
  sp_description :: string
  sp_entryGateId :: "string option"
  sp_entryEncounterId :: string

record SpoolProgress =
  pr_spoolId :: string
  pr_agentId :: string
  pr_status :: SpoolStatus
  pr_currentEncounterId :: "string option"
  pr_enteredAtFrame :: int
  pr_completedAtFrame :: "int option"
  pr_choiceHistory :: "(string \<times> string \<times> int) list"

record 'v Storyworld =
  sw_id :: string
  sw_variables :: "'v Variable list"
  sw_gates :: "'v Gate list"
  sw_spools :: "Spool list"
  sw_encounters :: "'v Encounter list"

subsection \<open>World state\<close>

record 'v WorldState =
  ws_variables :: "(string \<times> 'v VariableState) list"
  ws_spoolProgress :: "(string \<times> SpoolProgress list) list"
  ws_frame :: int

definition initializeVariables ::
  "'v Variable list \<Rightarrow> (string \<times> 'v VariableState) list" where
  "initializeVariables vars =
     foldl (\<lambda>m variable. Map_set (var_id variable)
              \<lparr>vs_variableId = var_id variable, vs_value = var_defaultValue variable,
               vs_lastModifiedFrame = 0, vs_modifiedBy = None\<rparr> m) [] vars"

definition newWorldState :: "'v Storyworld \<Rightarrow> 'v WorldState" where
  "newWorldState storyworld =
     \<lparr>ws_variables = initializeVariables (sw_variables storyworld),
      ws_spoolProgress = [], ws_frame = 0\<rparr>"

definition getVariable :: "'v WorldState \<Rightarrow> string \<Rightarrow> 'v VariableState option" where
  "getVariable ws vid = Map_get (ws_variables ws) vid"

definition setVariable ::
  "'v WorldState \<Rightarrow> string \<Rightarrow> 'v \<Rightarrow> string option \<Rightarrow> 'v WorldState" where
  "setVariable ws vid val modifiedBy =
     ws\<lparr>ws_variables :=
          Map_set vid \<lparr>vs_variableId = vid, vs_value = val,
                       vs_lastModifiedFrame = ws_frame ws, vs_modifiedBy = modifiedBy\<rparr>
            (ws_variables ws)\<rparr>"

text \<open>
  \<^verbatim>\<open>applyMutation\<close>: \<open>None\<close> is the \<^verbatim>\<open>TypeError\<close> of \<^verbatim>\<open>[...current.value, v]\<close> or of
  \<^verbatim>\<open>current.value.filter(...)\<close>; a mutation of an unknown variable changes nothing.
\<close>

definition applyMutation ::
  "'v jsops \<Rightarrow> 'v WorldState \<Rightarrow> 'v VariableMutation \<Rightarrow> string \<Rightarrow> 'v WorldState option" where
  "applyMutation ops ws mutation actorId =
     (case getVariable ws (mut_variableId mutation) of
        None \<Rightarrow> Some ws
      | Some current \<Rightarrow>
          (let operation = mut_operation mutation;
               newValue =
                 (if operation = ''SET'' then Some (mut_value mutation)
                  else if operation = ''ADD''
                    then Some (js_add ops (vs_value current) (mut_value mutation))
                  else if operation = ''SUBTRACT''
                    then Some (js_sub ops (vs_value current) (mut_value mutation))
                  else if operation = ''MULTIPLY''
                    then Some (js_mul ops (vs_value current) (mut_value mutation))
                  else if operation = ''APPEND''
                    then js_spread_append ops (vs_value current) (mut_value mutation)
                  else if operation = ''REMOVE''
                    then js_filter_neq ops (vs_value current) (mut_value mutation)
                  else if operation = ''TOGGLE''
                    then Some (js_not ops (vs_value current))
                  else Some (mut_value mutation))
           in case newValue of
                None \<Rightarrow> None
              | Some v \<Rightarrow> Some (setVariable ws (mut_variableId mutation) v (Some actorId))))"

definition getAllVariables :: "'v WorldState \<Rightarrow> 'v VariableState list" where
  "getAllVariables ws = Map_values (ws_variables ws)"

definition getAgentSpools :: "'v WorldState \<Rightarrow> string \<Rightarrow> SpoolProgress list" where
  "getAgentSpools ws agentId =
     (case Map_get (ws_spoolProgress ws) agentId of None \<Rightarrow> [] | Some progress \<Rightarrow> progress)"

definition setAgentSpools ::
  "'v WorldState \<Rightarrow> string \<Rightarrow> SpoolProgress list \<Rightarrow> 'v WorldState" where
  "setAgentSpools ws agentId progress =
     ws\<lparr>ws_spoolProgress := Map_set agentId progress (ws_spoolProgress ws)\<rparr>"

definition advanceFrame :: "'v WorldState \<Rightarrow> 'v WorldState" where
  "advanceFrame ws = ws\<lparr>ws_frame := ws_frame ws + 1\<rparr>"

definition getCurrentFrame :: "'v WorldState \<Rightarrow> int" where
  "getCurrentFrame ws = ws_frame ws"

subsection \<open>Gate evaluator\<close>

text \<open>\<^verbatim>\<open>children ?? []\<close>.\<close>

fun childrenOrEmpty :: "'a list option \<Rightarrow> 'a list" where
  "childrenOrEmpty None = []"
| "childrenOrEmpty (Some cs) = cs"

text \<open>
  The variable read at the head of \<^verbatim>\<open>evaluateCondition\<close>: \<^verbatim>\<open>undefined\<close> unless
  \<^verbatim>\<open>variableId\<close> is truthy and names a variable of the world state.
\<close>

definition readVarValue :: "'v jsops \<Rightarrow> 'v WorldState \<Rightarrow> string option \<Rightarrow> 'v" where
  "readVarValue ops ws variableId =
     (case variableId of
        None \<Rightarrow> js_undefined ops
      | Some vid \<Rightarrow>
          if vid = [] then js_undefined ops
          else (case getVariable ws vid of
                  None \<Rightarrow> js_undefined ops
                | Some varState \<Rightarrow> vs_value varState))"

function evaluateCondition ::
  "'v jsops \<Rightarrow> 'v WorldState \<Rightarrow> string option \<Rightarrow> 'v GateCondition \<Rightarrow> bool" where
  "evaluateCondition ops ws agentId (GateCondition operator variableId val children) =
     (let varValue = readVarValue ops ws variableId in
      if operator = ''EQ'' then js_strict_eq ops varValue val
      else if operator = ''NEQ'' then \<not> js_strict_eq ops varValue val
      else if operator = ''GT'' then js_gt ops varValue val
      else if operator = ''GTE'' then js_gte ops varValue val
      else if operator = ''LT'' then js_lt ops varValue val
      else if operator = ''LTE'' then js_lte ops varValue val
      else if operator = ''CONTAINS''
        then js_isArray ops varValue \<and> js_includes ops varValue val
      else if operator = ''NOT_CONTAINS''
        then \<not> js_isArray ops varValue \<or> \<not> js_includes ops varValue val
      else if operator = ''EXISTS''
        then \<not> js_strict_eq ops varValue (js_undefined ops)
           \<and> \<not> js_strict_eq ops varValue (js_null ops)
      else if operator = ''NOT_EXISTS''
        then js_strict_eq ops varValue (js_undefined ops)
           \<or> js_strict_eq ops varValue (js_null ops)
      else if operator = ''AND''
        then list_all (evaluateCondition ops ws agentId) (childrenOrEmpty children)
      else if operator = ''OR''
        then list_ex (evaluateCondition ops ws agentId) (childrenOrEmpty children)
      else if operator = ''NOT''
        then \<not> (case childrenOrEmpty children of
                  [] \<Rightarrow> False
                | c # _ \<Rightarrow> evaluateCondition ops ws agentId c)
      else True)"
  by pat_completeness auto
termination
proof (relation "measure (\<lambda>(ops, ws, agentId, condition). size condition)")
  show "wf (measure (\<lambda>(ops, ws, agentId, condition :: 'v GateCondition). size condition))"
    by simp
next
  have child: "size c < Suc (size_option (size_list size) children)"
    if "c \<in> set (childrenOrEmpty children)"
    for c :: "'v GateCondition" and children
  proof (cases children)
    case None
    with that show ?thesis by simp
  next
    case (Some cs)
    with that have "c \<in> set cs" by simp
    then have "size c \<le> size_list size cs" by (rule size_list_estimation') simp
    with Some show ?thesis by simp
  qed
  fix ops :: "'v jsops" and ws :: "'v WorldState" and agentId :: "string option"
    and operator variableId and val :: 'v and children and c :: "'v GateCondition"
  assume kid: "c \<in> set (childrenOrEmpty children)"
  txt \<open>the calls of \<^verbatim>\<open>every\<close> and of \<^verbatim>\<open>some\<close>\<close>
  from kid show "((ops, ws, agentId, c), ops, ws, agentId,
              GateCondition operator variableId val children)
             \<in> measure (\<lambda>(ops, ws, agentId, condition). size condition)"
    by (simp add: child)
  from kid show "((ops, ws, agentId, c), ops, ws, agentId,
              GateCondition operator variableId val children)
             \<in> measure (\<lambda>(ops, ws, agentId, condition). size condition)"
    by (simp add: child)
next
  fix ops :: "'v jsops" and ws :: "'v WorldState" and agentId :: "string option"
    and operator variableId and val :: 'v and children and c :: "'v GateCondition" and cs
  assume "childrenOrEmpty children = c # cs"
  then have "size c \<le> size_list size (childrenOrEmpty children)" by simp
  then have "size c < Suc (size_option (size_list size) children)"
    by (cases children) simp_all
  then show "((ops, ws, agentId, c), ops, ws, agentId,
              GateCondition operator variableId val children)
             \<in> measure (\<lambda>(ops, ws, agentId, condition). size condition)"
    by simp
qed

definition evaluate ::
  "'v jsops \<Rightarrow> 'v Storyworld \<Rightarrow> string \<Rightarrow> 'v WorldState \<Rightarrow> string option \<Rightarrow> bool" where
  "evaluate ops storyworld gateId ws agentId =
     (case find (\<lambda>g. gate_id g = gateId) (sw_gates storyworld) of
        None \<Rightarrow> True
      | Some gate \<Rightarrow> evaluateCondition ops ws agentId (gate_condition gate))"

subsection \<open>Events and agent views\<close>

datatype EventCategory = NARRATIVE | COMMUNICATION | STATE | SYSTEM | ANALYSIS

text \<open>A field of an event payload (\<^verbatim>\<open>Record<string, unknown>\<close>).\<close>

datatype 'v PayloadValue =
  PString string | PNumber int | PBoolean bool | PStrings "string list" | PValue 'v

record 'v SimulationEvent =
  ev_simulationId :: string
  ev_frame :: int
  ev_category :: EventCategory
  ev_eventType :: string
  ev_actorId :: "string option"
  ev_targetId :: "string option"
  ev_payload :: "(string \<times> 'v PayloadValue) list"

record NarrativeEvent =
  ne_frame :: int
  ne_eventType :: string
  ne_agentId :: "string option"
  ne_spoolId :: "string option"
  ne_encounterId :: "string option"
  ne_variableId :: "string option"

text \<open>
  \<^verbatim>\<open>e as unknown as NarrativeEvent\<close>: the object stays a SimulationEvent, so the fields that
  only NarrativeEvent declares (\<^verbatim>\<open>agentId\<close>, \<^verbatim>\<open>spoolId\<close>, \<^verbatim>\<open>encounterId\<close>,
  \<^verbatim>\<open>variableId\<close>) read as \<^verbatim>\<open>undefined\<close>.
\<close>

definition asNarrativeEvent :: "'v SimulationEvent \<Rightarrow> NarrativeEvent" where
  "asNarrativeEvent e =
     \<lparr>ne_frame = ev_frame e, ne_eventType = ev_eventType e, ne_agentId = None,
      ne_spoolId = None, ne_encounterId = None, ne_variableId = None\<rparr>"

record SpoolInfo =
  si_spoolId :: string
  si_spoolName :: string
  si_description :: string

record HistoryEntry =
  he_frame :: int
  he_event :: string
  he_summary :: string

record 'v AgentView =
  av_agentId :: string
  av_simulationId :: string
  av_frame :: int
  av_visibleVariables :: "'v VariableState list"
  av_availableSpools :: "SpoolInfo list"
  av_activeSpools :: "SpoolProgress list"
  av_currentEncounter :: "'v Encounter option"
  av_availableChoices :: "'v Choice list"
  av_recentHistory :: "HistoryEntry list"

subsection \<open>View builder\<close>

definition getVisibleVariables ::
  "'v Storyworld \<Rightarrow> string \<Rightarrow> 'v WorldState \<Rightarrow> 'v VariableState list" where
  "getVisibleVariables storyworld agentId ws =
     filter (\<lambda>v. case find (\<lambda>vd. var_id vd = vs_variableId v) (sw_variables storyworld) of
                    None \<Rightarrow> False
                  | Some varDef \<Rightarrow> var_scope varDef = GLOBAL \<or> var_scope varDef = AGENT)
       (getAllVariables ws)"

definition getAvailableSpools ::
  "'v jsops \<Rightarrow> 'v Storyworld \<Rightarrow> string \<Rightarrow> 'v WorldState \<Rightarrow> SpoolInfo list" where
  "getAvailableSpools ops storyworld agentId ws =
     (let activeSpoolIds = set (map pr_spoolId (getAgentSpools ws agentId)) in
      map (\<lambda>spool. \<lparr>si_spoolId = sp_id spool, si_spoolName = sp_name spool,
                     si_description = sp_description spool\<rparr>)
        (filter (\<lambda>spool.
            if sp_id spool \<in> activeSpoolIds then False
            else (case sp_entryGateId spool of
                    None \<Rightarrow> True
                  | Some gateId \<Rightarrow>
                      if gateId \<noteq> [] \<and> \<not> evaluate ops storyworld gateId ws (Some agentId)
                      then False else True))
          (sw_spools storyworld)))"

fun getCurrentEncounter ::
  "'v Storyworld \<Rightarrow> string \<Rightarrow> SpoolProgress list \<Rightarrow> 'v Encounter option" where
  "getCurrentEncounter storyworld agentId [] = None"
| "getCurrentEncounter storyworld agentId (progress # rest) =
     (case pr_currentEncounterId progress of
        None \<Rightarrow> getCurrentEncounter storyworld agentId rest
      | Some encounterId \<Rightarrow>
          if encounterId = [] then getCurrentEncounter storyworld agentId rest
          else (case find (\<lambda>e. enc_id e = encounterId) (sw_encounters storyworld) of
                  Some encounter \<Rightarrow> Some encounter
                | None \<Rightarrow> getCurrentEncounter storyworld agentId rest))"

definition getAvailableChoices ::
  "'v jsops \<Rightarrow> 'v Storyworld \<Rightarrow> 'v Encounter \<Rightarrow> 'v WorldState \<Rightarrow> string \<Rightarrow> 'v Choice list"
  where
  "getAvailableChoices ops storyworld encounter ws agentId =
     filter (\<lambda>choice. case ch_gateId choice of
                         None \<Rightarrow> True
                       | Some gateId \<Rightarrow>
                           if gateId = [] then True
                           else evaluate ops storyworld gateId ws (Some agentId))
       (enc_choices encounter)"

text \<open>A template literal prints an absent field as \<^verbatim>\<open>undefined\<close>.\<close>

fun interpolate :: "string option \<Rightarrow> string" where
  "interpolate None = ''undefined''"
| "interpolate (Some s) = s"

definition summarizeEvent :: "NarrativeEvent \<Rightarrow> string" where
  "summarizeEvent event =
     (if ne_eventType event = ''CHOICE_MADE''
        then ''Made choice in '' @ interpolate (ne_encounterId event)
      else if ne_eventType event = ''SPOOL_ENTERED''
        then ''Entered narrative thread: '' @ interpolate (ne_spoolId event)
      else if ne_eventType event = ''SPOOL_COMPLETED''
        then ''Completed narrative thread: '' @ interpolate (ne_spoolId event)
      else if ne_eventType event = ''VARIABLE_CHANGED''
        then ''World state changed: '' @ interpolate (ne_variableId event)
      else ne_eventType event)"

definition historyEntry :: "NarrativeEvent \<Rightarrow> HistoryEntry" where
  "historyEntry e =
     \<lparr>he_frame = ne_frame e, he_event = ne_eventType e, he_summary = summarizeEvent e\<rparr>"

definition buildRecentHistory :: "string \<Rightarrow> NarrativeEvent list \<Rightarrow> HistoryEntry list" where
  "buildRecentHistory agentId events =
     map historyEntry
       (slice_last 10
          (filter (\<lambda>e. ne_agentId e = Some agentId \<or> \<not> truthy (ne_agentId e)) events))"

definition buildView ::
  "'v jsops \<Rightarrow> 'v Storyworld \<Rightarrow> string \<Rightarrow> string \<Rightarrow> 'v WorldState \<Rightarrow> NarrativeEvent list
   \<Rightarrow> 'v AgentView" where
  "buildView ops storyworld agentId simulationId ws recentEvents =
     (let frame = getCurrentFrame ws;
          visibleVariables = getVisibleVariables storyworld agentId ws;
          availableSpools = getAvailableSpools ops storyworld agentId ws;
          activeSpools = getAgentSpools ws agentId;
          currentEncounter = getCurrentEncounter storyworld agentId activeSpools;
          availableChoices =
            (case currentEncounter of
               Some encounter \<Rightarrow> getAvailableChoices ops storyworld encounter ws agentId
             | None \<Rightarrow> []);
          recentHistory = buildRecentHistory agentId recentEvents
      in \<lparr>av_agentId = agentId, av_simulationId = simulationId, av_frame = frame,
          av_visibleVariables = visibleVariables, av_availableSpools = availableSpools,
          av_activeSpools = activeSpools, av_currentEncounter = currentEncounter,
          av_availableChoices = availableChoices, av_recentHistory = recentHistory\<rparr>)"

subsection \<open>Simulation engine: state\<close>

datatype SimulationStatus =
  S_INITIALIZING | S_RUNNING | S_PAUSED | S_COMPLETED | S_ABORTED | S_ANALYZING

record AgentSlot =
  ag_id :: string
  ag_name :: string
  ag_isActive :: bool

record Simulation =
  sim_id :: string
  sim_name :: string
  sim_storyworldIds :: "string list"
  sim_agents :: "AgentSlot list"
  sim_status :: SimulationStatus
  sim_currentFrame :: int

record EngineConfig =
  cfg_maxFrames :: int
  cfg_agentTimeoutMs :: int
  cfg_snapshotInterval :: int

record ChoiceRecord =
  cr_frame :: int
  cr_encounterId :: string
  cr_choiceId :: string
  cr_availableChoices :: "string list"
  cr_choiceIndex :: int

record SessionData =
  sd_startFrame :: int
  sd_choices :: "ChoiceRecord list"

record 'v SessionOutcome =
  so_sessionId :: string
  so_agentId :: string
  so_simulationId :: string
  so_storyworldId :: "string option"
  so_startFrame :: int
  so_endFrame :: int
  so_totalChoices :: nat
  so_spoolsEntered :: "string list"
  so_spoolsCompleted :: "string list"
  so_endingsReached :: "string list"
  so_finalVariableState :: "'v VariableState list"
  so_choiceSequence :: "ChoiceRecord list"

text \<open>
  The fields of \<^verbatim>\<open>SimulationEngine\<close>. A \<^verbatim>\<open>ViewBuilder\<close> and its \<^verbatim>\<open>GateEvaluator\<close> hold
  nothing but the storyworld they were built with, so \<open>eng_viewBuilders\<close> maps a storyworld
  id to that storyworld; the map \<^verbatim>\<open>gateEvaluators\<close> is written by \<^verbatim>\<open>loadStoryworld\<close> and never
  read. Event listeners and the action handler are taken not to call back into the engine.
\<close>

record 'v Engine =
  eng_simulation :: Simulation
  eng_storyworlds :: "(string \<times> 'v Storyworld) list"
  eng_worldStates :: "(string \<times> 'v WorldState) list"
  eng_viewBuilders :: "(string \<times> 'v Storyworld) list"
  eng_events :: "'v SimulationEvent list"
  eng_sessionData :: "(string \<times> SessionData) list"
  eng_config :: EngineConfig

datatype error = SimulationNotRunning | CannotStart | StoryworldNotLoaded | TypeError

type_synonym 'v result = "(error \<times> 'v Engine) + 'v Engine"

definition createEmptySimulation :: Simulation where
  "createEmptySimulation =
     \<lparr>sim_id = [], sim_name = [], sim_storyworldIds = [], sim_agents = [],
      sim_status = S_INITIALIZING, sim_currentFrame = 0\<rparr>"

definition newEngine :: "EngineConfig \<Rightarrow> 'v Engine" where
  "newEngine cfg =
     \<lparr>eng_simulation = createEmptySimulation, eng_storyworlds = [], eng_worldStates = [],
      eng_viewBuilders = [], eng_events = [], eng_sessionData = [], eng_config = cfg\<rparr>"

definition defaultConfig :: EngineConfig where
  "defaultConfig = \<lparr>cfg_maxFrames = 1000, cfg_agentTimeoutMs = 30000, cfg_snapshotInterval = 10\<rparr>"

text \<open>The event object that \<^verbatim>\<open>emitEvent\<close> builds, and \<^verbatim>\<open>emitEvent\<close>, which appends it to the log.\<close>

definition newEvent ::
  "'v Engine \<Rightarrow> EventCategory \<Rightarrow> string \<Rightarrow> (string \<times> 'v PayloadValue) list \<Rightarrow> string option
   \<Rightarrow> 'v SimulationEvent" where
  "newEvent s category eventType payload actorId =
     \<lparr>ev_simulationId = sim_id (eng_simulation s),
      ev_frame = sim_currentFrame (eng_simulation s),
      ev_category = category, ev_eventType = eventType,
      ev_actorId = actorId, ev_targetId = None, ev_payload = payload\<rparr>"

definition emitEvent ::
  "EventCategory \<Rightarrow> string \<Rightarrow> (string \<times> 'v PayloadValue) list \<Rightarrow> string option
   \<Rightarrow> 'v Engine \<Rightarrow> 'v Engine" where
  "emitEvent category eventType payload actorId s =
     s\<lparr>eng_events := eng_events s @ [newEvent s category eventType payload actorId]\<rparr>"

definition loadStoryworld :: "'v Storyworld \<Rightarrow> 'v Engine \<Rightarrow> 'v Engine" where
  "loadStoryworld storyworld s =
     s\<lparr>eng_storyworlds := Map_set (sw_id storyworld) storyworld (eng_storyworlds s),
       eng_worldStates := Map_set (sw_id storyworld) (newWorldState storyworld) (eng_worldStates s),
       eng_viewBuilders := Map_set (sw_id storyworld) storyworld (eng_viewBuilders s)\<rparr>"

text \<open>\<^verbatim>\<open>createSimulation\<close>; \<open>simId\<close> is the value that \<^verbatim>\<open>uuid()\<close> returns.\<close>

definition createSimulation ::
  "string \<Rightarrow> string \<Rightarrow> string list \<Rightarrow> AgentSlot list \<Rightarrow> 'v Engine \<Rightarrow> 'v Engine" where
  "createSimulation simId name storyworldIds agents s =
     (let s1 = s\<lparr>eng_simulation :=
                   \<lparr>sim_id = simId, sim_name = name, sim_storyworldIds = storyworldIds,
                    sim_agents = agents, sim_status = S_INITIALIZING, sim_currentFrame = 0\<rparr>\<rparr>;
          s2 = s1\<lparr>eng_sessionData :=
                    foldl (\<lambda>m agent. Map_set (ag_id agent) \<lparr>sd_startFrame = 0, sd_choices = []\<rparr> m)
                      (eng_sessionData s1) agents\<rparr>
      in emitEvent SYSTEM ''SIMULATION_CREATED''
           [(''name'', PString name), (''storyworldIds'', PStrings storyworldIds),
            (''agentCount'', PNumber (int (length agents)))] None s2)"

definition start :: "'v Engine \<Rightarrow> 'v result" where
  "start s =
     (if sim_status (eng_simulation s) \<noteq> S_INITIALIZING then Inl (CannotStart, s)
      else Inr (emitEvent SYSTEM ''SIMULATION_STARTED'' []  None
                  (s\<lparr>eng_simulation := (eng_simulation s)\<lparr>sim_status := S_RUNNING\<rparr>\<rparr>)))"

definition complete :: "string option \<Rightarrow> 'v Engine \<Rightarrow> 'v Engine" where
  "complete reason s =
     emitEvent SYSTEM ''SIMULATION_COMPLETED''
       (case reason of None \<Rightarrow> [] | Some r \<Rightarrow> [(''reason'', PString r)]) None
       (s\<lparr>eng_simulation := (eng_simulation s)\<lparr>sim_status := S_COMPLETED\<rparr>\<rparr>)"

text \<open>\<^verbatim>\<open>this.simulation.storyworldIds[0]\<close>, \<^verbatim>\<open>undefined\<close> on an empty list.\<close>

definition firstStoryworldId :: "'v Engine \<Rightarrow> string option" where
  "firstStoryworldId s =
     (case sim_storyworldIds (eng_simulation s) of [] \<Rightarrow> None | storyworldId # _ \<Rightarrow> Some storyworldId)"

text \<open>
  A \<^verbatim>\<open>WorldState\<close> is an object shared by reference: a method that changes it changes the
  entry of the map \<^verbatim>\<open>worldStates\<close> it was read from.
\<close>

definition storeWorldState :: "string \<Rightarrow> 'v WorldState \<Rightarrow> 'v Engine \<Rightarrow> 'v Engine" where
  "storeWorldState storyworldId ws s =
     s\<lparr>eng_worldStates := Map_set storyworldId ws (eng_worldStates s)\<rparr>"

subsection \<open>Simulation engine: views and choice resolution\<close>

definition buildAgentView :: "'v jsops \<Rightarrow> 'v Engine \<Rightarrow> string \<Rightarrow> error + 'v AgentView" where
  "buildAgentView ops s agentId =
     (case firstStoryworldId s of
        None \<Rightarrow> Inl StoryworldNotLoaded
      | Some storyworldId \<Rightarrow>
          (case (Map_get (eng_viewBuilders s) storyworldId,
                 Map_get (eng_worldStates s) storyworldId) of
             (Some viewBuilder, Some ws) \<Rightarrow>
               (let recentEvents =
                      map asNarrativeEvent
                        (slice_last 20
                           (filter (\<lambda>e. ev_actorId e = Some agentId \<or> \<not> truthy (ev_actorId e))
                              (eng_events s)))
                in Inr (buildView ops viewBuilder agentId (sim_id (eng_simulation s)) ws
                          recentEvents))
           | _ \<Rightarrow> Inl StoryworldNotLoaded))"

text \<open>The search loop of \<^verbatim>\<open>processChoice\<close>: the first encounter that has the choice id.\<close>

fun findChoice :: "'v Encounter list \<Rightarrow> string \<Rightarrow> ('v Choice \<times> 'v Encounter) option" where
  "findChoice [] choiceId = None"
| "findChoice (encounter # rest) choiceId =
     (case find (\<lambda>c. ch_id c = choiceId) (enc_choices encounter) of
        Some choice \<Rightarrow> Some (choice, encounter)
      | None \<Rightarrow> findChoice rest choiceId)"

definition recordChoice ::
  "'v Engine \<Rightarrow> string \<Rightarrow> string \<Rightarrow> 'v Choice \<Rightarrow> 'v Encounter \<Rightarrow> 'v Engine" where
  "recordChoice s agentId choiceId foundChoice foundEncounter =
     (case Map_get (eng_sessionData s) agentId of
        None \<Rightarrow> s
      | Some sessionData \<Rightarrow>
          s\<lparr>eng_sessionData :=
              Map_set agentId
                (sessionData\<lparr>sd_choices := sd_choices sessionData @
                     [\<lparr>cr_frame = sim_currentFrame (eng_simulation s),
                       cr_encounterId = enc_id foundEncounter,
                       cr_choiceId = ch_id foundChoice,
                       cr_availableChoices = map ch_id (enc_choices foundEncounter),
                       cr_choiceIndex =
                         findIndex (\<lambda>c. ch_id c = choiceId) (enc_choices foundEncounter)\<rparr>]\<rparr>)
                (eng_sessionData s)\<rparr>)"

text \<open>
  The mutation loop of \<^verbatim>\<open>processChoice\<close>. \<open>ws\<close> is the world state object of storyworld
  \<open>storyworldId\<close>, held in a local variable by the source; each change of it is stored.
\<close>

fun applyMutations ::
  "'v jsops \<Rightarrow> string \<Rightarrow> string \<Rightarrow> 'v VariableMutation list \<Rightarrow> 'v WorldState \<Rightarrow> 'v Engine
   \<Rightarrow> 'v result" where
  "applyMutations ops storyworldId agentId [] ws s = Inr s"
| "applyMutations ops storyworldId agentId (mutation # rest) ws s =
     (case applyMutation ops ws mutation agentId of
        None \<Rightarrow> Inl (TypeError, s)
      | Some ws' \<Rightarrow>
          applyMutations ops storyworldId agentId rest ws'
            (emitEvent STATE ''VARIABLE_CHANGED''
               [(''variableId'', PString (mut_variableId mutation)),
                (''operation'', PString (mut_operation mutation)),
                (''value'', PValue (mut_value mutation))] (Some agentId)
               (storeWorldState storyworldId ws' s)))"

definition enterSpool :: "'v Engine \<Rightarrow> string \<Rightarrow> string \<Rightarrow> 'v Engine" where
  "enterSpool s agentId spoolId =
     (case firstStoryworldId s of
        None \<Rightarrow> s
      | Some storyworldId \<Rightarrow>
          (case (Map_get (eng_storyworlds s) storyworldId,
                 Map_get (eng_worldStates s) storyworldId) of
             (Some storyworld, Some ws) \<Rightarrow>
               (case find (\<lambda>sp. sp_id sp = spoolId) (sw_spools storyworld) of
                  None \<Rightarrow> s
                | Some spool \<Rightarrow>
                    (let progress =
                           \<lparr>pr_spoolId = spoolId, pr_agentId = agentId, pr_status = ACTIVE,
                            pr_currentEncounterId = Some (sp_entryEncounterId spool),
                            pr_enteredAtFrame = sim_currentFrame (eng_simulation s),
                            pr_completedAtFrame = None, pr_choiceHistory = []\<rparr>;
                         agentSpools = getAgentSpools ws agentId
                     in emitEvent NARRATIVE ''SPOOL_ENTERED'' [(''spoolId'', PString spoolId)]
                          (Some agentId)
                          (storeWorldState storyworldId
                             (setAgentSpools ws agentId (agentSpools @ [progress])) s)))
           | _ \<Rightarrow> s))"

definition completeSpool :: "'v Engine \<Rightarrow> string \<Rightarrow> string \<Rightarrow> 'v Engine" where
  "completeSpool s agentId spoolId =
     (case firstStoryworldId s of
        None \<Rightarrow> s
      | Some storyworldId \<Rightarrow>
          (case Map_get (eng_worldStates s) storyworldId of
             None \<Rightarrow> s
           | Some ws \<Rightarrow>
               (let agentSpools = getAgentSpools ws agentId;
                    updated =
                      map (\<lambda>p. if pr_spoolId p = spoolId
                                then p\<lparr>pr_status := COMPLETED,
                                       pr_completedAtFrame :=
                                         Some (sim_currentFrame (eng_simulation s))\<rparr>
                                else p) agentSpools
                in emitEvent NARRATIVE ''SPOOL_COMPLETED'' [(''spoolId'', PString spoolId)]
                     (Some agentId)
                     (storeWorldState storyworldId (setAgentSpools ws agentId updated) s))))"

definition advanceToEncounter :: "'v Engine \<Rightarrow> string \<Rightarrow> string \<Rightarrow> 'v Engine" where
  "advanceToEncounter s agentId encounterId =
     (case firstStoryworldId s of
        None \<Rightarrow> s
      | Some storyworldId \<Rightarrow>
          (case Map_get (eng_worldStates s) storyworldId of
             None \<Rightarrow> s
           | Some ws \<Rightarrow>
               (let agentSpools = getAgentSpools ws agentId;
                    updated =
                      map (\<lambda>p. if pr_status p = ACTIVE
                                then p\<lparr>pr_currentEncounterId := Some encounterId\<rparr>
                                else p) agentSpools
                in emitEvent NARRATIVE ''ENCOUNTER_STARTED''
                     [(''encounterId'', PString encounterId)] (Some agentId)
                     (storeWorldState storyworldId (setAgentSpools ws agentId updated) s))))"

text \<open>The last statement of \<^verbatim>\<open>processChoice\<close>: the narrative transition of the choice.\<close>

definition narrativeTransition ::
  "'v Engine \<Rightarrow> string \<Rightarrow> 'v Choice \<Rightarrow> 'v Encounter \<Rightarrow> 'v Engine" where
  "narrativeTransition s agentId foundChoice foundEncounter =
     (if ch_isTerminal foundChoice = Some True
        then completeSpool s agentId (enc_spoolId foundEncounter)
      else (case ch_nextEncounterId foundChoice of
              Some nextEncounterId \<Rightarrow>
                if nextEncounterId \<noteq> [] then advanceToEncounter s agentId nextEncounterId
                else (case ch_nextSpoolId foundChoice of
                        Some nextSpoolId \<Rightarrow>
                          if nextSpoolId \<noteq> [] then enterSpool s agentId nextSpoolId else s
                      | None \<Rightarrow> s)
            | None \<Rightarrow>
                (case ch_nextSpoolId foundChoice of
                   Some nextSpoolId \<Rightarrow>
                     if nextSpoolId \<noteq> [] then enterSpool s agentId nextSpoolId else s
                 | None \<Rightarrow> s)))"

definition processChoice :: "'v jsops \<Rightarrow> 'v Engine \<Rightarrow> string \<Rightarrow> string \<Rightarrow> 'v result" where
  "processChoice ops s agentId choiceId =
     (case firstStoryworldId s of
        None \<Rightarrow> Inr s
      | Some storyworldId \<Rightarrow>
          (case (Map_get (eng_storyworlds s) storyworldId,
                 Map_get (eng_worldStates s) storyworldId) of
             (Some storyworld, Some ws) \<Rightarrow>
               (case findChoice (sw_encounters storyworld) choiceId of
                  None \<Rightarrow>
                    Inr (emitEvent SYSTEM ''INVALID_CHOICE'' [(''choiceId'', PString choiceId)]
                           (Some agentId) s)
                | Some (foundChoice, foundEncounter) \<Rightarrow>
                    (case applyMutations ops storyworldId agentId (ch_mutations foundChoice) ws
                            (recordChoice s agentId choiceId foundChoice foundEncounter) of
                       Inl thrown \<Rightarrow> Inl thrown
                     | Inr s' \<Rightarrow>
                         Inr (narrativeTransition
                                (emitEvent NARRATIVE ''CHOICE_MADE''
                                   [(''encounterId'', PString (enc_id foundEncounter)),
                                    (''choiceId'', PString (ch_id foundChoice)),
                                    (''choiceText'', PString (ch_text foundChoice))]
                                   (Some agentId) s')
                                agentId foundChoice foundEncounter)))
           | _ \<Rightarrow> Inr s))"

subsection \<open>Simulation engine: frame execution\<close>

record Action =
  act_choiceId :: "string option"
  act_message :: "string option"

text \<open>
  The action handler is the caller's asynchronous function. Its answer to the call for the
  agent slot at position \<open>i\<close> is \<open>Inl msg\<close> when the promise is rejected with message
  \<open>msg\<close> or the timeout wins the race, \<open>Inr None\<close> for \<^verbatim>\<open>null\<close> and \<open>Inr (Some action)\<close>
  otherwise.
\<close>

type_synonym 'v AgentActionHandler = "nat \<Rightarrow> string \<Rightarrow> 'v AgentView \<Rightarrow> string + Action option"

text \<open>OBSERVATION: the first loop of \<^verbatim>\<open>executeFrame\<close>.\<close>

fun observeAgents ::
  "'v jsops \<Rightarrow> AgentSlot list \<Rightarrow> (string \<times> 'v AgentView) list \<Rightarrow> 'v Engine
   \<Rightarrow> (error \<times> 'v Engine) + ((string \<times> 'v AgentView) list \<times> 'v Engine)" where
  "observeAgents ops [] agentViews s = Inr (agentViews, s)"
| "observeAgents ops (agent # rest) agentViews s =
     (if \<not> ag_isActive agent then observeAgents ops rest agentViews s
      else (case buildAgentView ops s (ag_id agent) of
              Inl e \<Rightarrow> Inl (e, s)
            | Inr view \<Rightarrow>
                observeAgents ops rest (Map_set (ag_id agent) view agentViews)
                  (emitEvent SYSTEM ''VIEW_DELIVERED''
                     [(''agentId'', PString (ag_id agent)),
                      (''hasEncounter'', PBoolean (av_currentEncounter view \<noteq> None)),
                      (''choiceCount'', PNumber (int (length (av_availableChoices view))))]
                     (Some (ag_id agent)) s)))"

text \<open>ACTION: the second loop; \<open>i\<close> is the position of the agent slot.\<close>

fun collectActions ::
  "'v AgentActionHandler \<Rightarrow> (string \<times> 'v AgentView) list \<Rightarrow> nat \<Rightarrow> AgentSlot list
   \<Rightarrow> (string \<times> Action) list \<Rightarrow> 'v Engine \<Rightarrow> (string \<times> Action) list \<times> 'v Engine" where
  "collectActions actionHandler agentViews i [] actions s = (actions, s)"
| "collectActions actionHandler agentViews i (agent # rest) actions s =
     (if \<not> ag_isActive agent
        then collectActions actionHandler agentViews (Suc i) rest actions s
      else (case Map_get agentViews (ag_id agent) of
              None \<Rightarrow> collectActions actionHandler agentViews (Suc i) rest actions s
            | Some view \<Rightarrow>
                (case actionHandler i (ag_id agent) view of
                   Inl msg \<Rightarrow>
                     collectActions actionHandler agentViews (Suc i) rest actions
                       (emitEvent SYSTEM ''AGENT_ERROR''
                          [(''agentId'', PString (ag_id agent)), (''error'', PString msg)]
                          (Some (ag_id agent)) s)
                 | Inr None \<Rightarrow>
                     collectActions actionHandler agentViews (Suc i) rest actions s
                 | Inr (Some action) \<Rightarrow>
                     collectActions actionHandler agentViews (Suc i) rest
                       (Map_set (ag_id agent) action actions) s)))"

text \<open>RESOLUTION: the third loop, over the collected actions in insertion order.\<close>

fun resolveActions :: "'v jsops \<Rightarrow> (string \<times> Action) list \<Rightarrow> 'v Engine \<Rightarrow> 'v result" where
  "resolveActions ops [] s = Inr s"
| "resolveActions ops ((agentId, action) # rest) s =
     (case (case act_choiceId action of
              None \<Rightarrow> Inr s
            | Some choiceId \<Rightarrow>
                if choiceId \<noteq> [] then processChoice ops s agentId choiceId else Inr s) of
        Inl thrown \<Rightarrow> Inl thrown
      | Inr s' \<Rightarrow>
          resolveActions ops rest
            (case act_message action of
               None \<Rightarrow> s'
             | Some message \<Rightarrow>
                 if message \<noteq> []
                 then emitEvent COMMUNICATION ''MESSAGE_SENT''
                        [(''content'', PString message), (''channel'', PString ''NARRATIVE'')]
                        (Some agentId) s'
                 else s'))"

text \<open>TRANSITION: every world state advances, then the simulation's frame.\<close>

definition advanceAll :: "'v Engine \<Rightarrow> 'v Engine" where
  "advanceAll s =
     s\<lparr>eng_worldStates := map (\<lambda>(k, ws). (k, advanceFrame ws)) (eng_worldStates s),
       eng_simulation :=
         (eng_simulation s)\<lparr>sim_currentFrame := sim_currentFrame (eng_simulation s) + 1\<rparr>\<rparr>"

text \<open>
  The completion check. The snapshot that follows it in the source builds a value from the
  state and drops it, so it is no step of the model.
\<close>

definition checkCompletion :: "'v Engine \<Rightarrow> 'v Engine" where
  "checkCompletion s =
     (if sim_currentFrame (eng_simulation s) \<ge> cfg_maxFrames (eng_config s)
      then complete (Some ''Max frames reached'') s else s)"

definition executeFrame :: "'v jsops \<Rightarrow> 'v AgentActionHandler \<Rightarrow> 'v Engine \<Rightarrow> 'v result" where
  "executeFrame ops actionHandler s =
     (if sim_status (eng_simulation s) \<noteq> S_RUNNING then Inl (SimulationNotRunning, s)
      else (case observeAgents ops (sim_agents (eng_simulation s)) [] s of
              Inl thrown \<Rightarrow> Inl thrown
            | Inr (agentViews, s1) \<Rightarrow>
                (case collectActions actionHandler agentViews 0 (sim_agents (eng_simulation s1))
                        [] s1 of
                   (actions, s2) \<Rightarrow>
                     (case resolveActions ops actions s2 of
                        Inl thrown \<Rightarrow> Inl thrown
                      | Inr s3 \<Rightarrow> Inr (checkCompletion (advanceAll s3))))))"

subsection \<open>Simulation engine: session export\<close>

text \<open>
  \<^verbatim>\<open>exportSessionOutcomes\<close>. \<open>uuid n\<close> is the value of the \<open>n\<close>-th call of \<^verbatim>\<open>uuid()\<close> during
  the export (one call per outcome). The export reads the engine and changes nothing.
\<close>

definition currentWorldState :: "'v Engine \<Rightarrow> 'v WorldState option" where
  "currentWorldState s =
     (case firstStoryworldId s of
        None \<Rightarrow> None
      | Some storyworldId \<Rightarrow> Map_get (eng_worldStates s) storyworldId)"

fun exportLoop ::
  "(nat \<Rightarrow> string) \<Rightarrow> nat \<Rightarrow> AgentSlot list \<Rightarrow> 'v Engine \<Rightarrow> 'v SessionOutcome list" where
  "exportLoop uuid n [] s = []"
| "exportLoop uuid n (agent # rest) s =
     (case Map_get (eng_sessionData s) (ag_id agent) of
        None \<Rightarrow> exportLoop uuid n rest s
      | Some sessionData \<Rightarrow>
          (let worldState = currentWorldState s;
               agentSpools =
                 (case worldState of
                    None \<Rightarrow> []
                  | Some ws \<Rightarrow> getAgentSpools ws (ag_id agent))
           in \<lparr>so_sessionId = uuid n,
               so_agentId = ag_id agent,
               so_simulationId = sim_id (eng_simulation s),
               so_storyworldId = firstStoryworldId s,
               so_startFrame = sd_startFrame sessionData,
               so_endFrame = sim_currentFrame (eng_simulation s),
               so_totalChoices = length (sd_choices sessionData),
               so_spoolsEntered = map pr_spoolId agentSpools,
               so_spoolsCompleted =
                 map pr_spoolId (filter (\<lambda>p. pr_status p = COMPLETED) agentSpools),
               so_endingsReached = [],
               so_finalVariableState =
                 (case worldState of None \<Rightarrow> [] | Some ws \<Rightarrow> getAllVariables ws),
               so_choiceSequence = sd_choices sessionData\<rparr>
              # exportLoop uuid (Suc n) rest s))"

definition exportSessionOutcomes :: "(nat \<Rightarrow> string) \<Rightarrow> 'v Engine \<Rightarrow> 'v SessionOutcome list"
  where
  "exportSessionOutcomes uuid s = exportLoop uuid 0 (sim_agents (eng_simulation s)) s"

subsection \<open>Observations on engine states\<close>

text \<open>The operators of \<^verbatim>\<open>GateOperatorSchema\<close>.\<close>

definition gateOperators :: "string list" where
  "gateOperators =
     [''EQ'', ''NEQ'', ''GT'', ''GTE'', ''LT'', ''LTE'', ''CONTAINS'', ''NOT_CONTAINS'',
      ''AND'', ''OR'', ''NOT'', ''EXISTS'', ''NOT_EXISTS'']"

text \<open>The engine after a call, whether it returned or threw.\<close>

fun resultState :: "'v result \<Rightarrow> 'v Engine" where
  "resultState (Inl (e, s)) = s"
| "resultState (Inr s) = s"

text \<open>The frame counter of every loaded world state, by storyworld id.\<close>

definition worldFrames :: "'v Engine \<Rightarrow> (string \<times> int) list" where
  "worldFrames s = map (\<lambda>(k, ws). (k, ws_frame ws)) (eng_worldStates s)"

definition sameClock :: "'v Engine \<Rightarrow> 'v Engine \<Rightarrow> bool" where
  "sameClock s s' =
     (eng_simulation s' = eng_simulation s \<and> eng_config s' = eng_config s
      \<and> worldFrames s' = worldFrames s)"

text \<open>The choice ledger of an agent: the \<^verbatim>\<open>choices\<close> of its session data.\<close>

definition ledger :: "'v Engine \<Rightarrow> string \<Rightarrow> ChoiceRecord list" where
  "ledger s agentId =
     (case Map_get (eng_sessionData s) agentId of
        None \<Rightarrow> []
      | Some sessionData \<Rightarrow> sd_choices sessionData)"

text \<open>The spool progress of an agent in the world state of the first storyworld.\<close>

definition agentProgress :: "'v Engine \<Rightarrow> string \<Rightarrow> SpoolProgress list" where
  "agentProgress s agentId =
     (case currentWorldState s of None \<Rightarrow> [] | Some ws \<Rightarrow> getAgentSpools ws agentId)"

definition variableValue :: "'v Engine \<Rightarrow> string \<Rightarrow> 'v option" where
  "variableValue s variableId =
     (case currentWorldState s of
        None \<Rightarrow> None
      | Some ws \<Rightarrow> map_option vs_value (getVariable ws variableId))"

subsection \<open>A JavaScript runtime for the examples\<close>

text \<open>
  The examples run on \<^verbatim>\<open>undefined\<close>, \<^verbatim>\<open>null\<close>, booleans, integers, strings and arrays.
  \<open>jsRuntime\<close> follows JavaScript on the operands the examples use: arithmetic and
  comparison of two numbers, \<^verbatim>\<open>===\<close> of primitives (two array literals are different
  objects), truthiness, spread and \<^verbatim>\<open>filter\<close> of arrays. Arithmetic and comparison of
  other operands coerce in JavaScript; here they give \<^verbatim>\<open>undefined\<close> and \<^verbatim>\<open>false\<close>.
\<close>

datatype jsval = JUndefined | JNull | JBool bool | JNum int | JStr string | JArr "jsval list"

fun strictEq :: "jsval \<Rightarrow> jsval \<Rightarrow> bool" where
  "strictEq (JArr xs) (JArr ys) = False"
| "strictEq a b = (a = b)"

fun toBoolean :: "jsval \<Rightarrow> bool" where
  "toBoolean JUndefined = False"
| "toBoolean JNull = False"
| "toBoolean (JBool b) = b"
| "toBoolean (JNum n) = (n \<noteq> 0)"
| "toBoolean (JStr s) = (s \<noteq> [])"
| "toBoolean (JArr xs) = True"

fun numOp :: "(int \<Rightarrow> int \<Rightarrow> 'a) \<Rightarrow> 'a \<Rightarrow> jsval \<Rightarrow> jsval \<Rightarrow> 'a" where
  "numOp f d (JNum a) (JNum b) = f a b"
| "numOp f d a b = d"

fun spreadAppend :: "jsval \<Rightarrow> jsval \<Rightarrow> jsval option" where
  "spreadAppend (JArr xs) v = Some (JArr (xs @ [v]))"
| "spreadAppend (JStr s) v = Some (JArr (map (\<lambda>c. JStr [c]) s @ [v]))"
| "spreadAppend a v = None"

fun filterNeq :: "jsval \<Rightarrow> jsval \<Rightarrow> jsval option" where
  "filterNeq (JArr xs) v = Some (JArr (filter (\<lambda>x. \<not> strictEq x v) xs))"
| "filterNeq a v = None"

fun isArray :: "jsval \<Rightarrow> bool" where
  "isArray (JArr xs) = True"
| "isArray a = False"

fun arrayIncludes :: "jsval \<Rightarrow> jsval \<Rightarrow> bool" where
  "arrayIncludes (JArr xs) v = list_ex (\<lambda>x. strictEq x v) xs"
| "arrayIncludes a v = False"

definition jsRuntime :: "jsval jsops" where
  "jsRuntime =
     \<lparr>js_undefined = JUndefined, js_null = JNull, js_strict_eq = strictEq,
      js_gt = numOp (\<lambda>a b. a > b) False, js_gte = numOp (\<lambda>a b. a \<ge> b) False,
      js_lt = numOp (\<lambda>a b. a < b) False, js_lte = numOp (\<lambda>a b. a \<le> b) False,
      js_isArray = isArray, js_includes = arrayIncludes,
      js_add = numOp (\<lambda>a b. JNum (a + b)) JUndefined,
      js_sub = numOp (\<lambda>a b. JNum (a - b)) JUndefined,
      js_mul = numOp (\<lambda>a b. JNum (a * b)) JUndefined,
      js_not = (\<lambda>v. JBool (\<not> toBoolean v)),
      js_spread_append = spreadAppend, js_filter_neq = filterNeq\<rparr>"

subsection \<open>An example storyworld\<close>

text \<open>
  The trust dilemma of the README, with a prologue whose choices enter the two spools, a
  second spool and one variable of each scope.
\<close>

definition joinAlliance :: "jsval Choice" where
  "joinAlliance =
     \<lparr>ch_id = ''join_alliance'', ch_text = ''Seek allies'', ch_gateId = None,
      ch_mutations = [], ch_nextEncounterId = None, ch_nextSpoolId = Some ''alliance_arc'',
      ch_isTerminal = None\<rparr>"

definition joinRivalry :: "jsval Choice" where
  "joinRivalry =
     \<lparr>ch_id = ''join_rivalry'', ch_text = ''Pick a fight'', ch_gateId = None,
      ch_mutations = [], ch_nextEncounterId = None, ch_nextSpoolId = Some ''rivalry_arc'',
      ch_isTerminal = None\<rparr>"

definition proposeChoice :: "jsval Choice" where
  "proposeChoice =
     \<lparr>ch_id = ''propose'', ch_text = ''Propose formal alliance'',
      ch_gateId = Some ''high_trust'',
      ch_mutations =
        [\<lparr>mut_variableId = ''trust_level'', mut_operation = ''ADD'', mut_value = JNum 25\<rparr>],
      ch_nextEncounterId = Some ''negotiate_terms'', ch_nextSpoolId = None,
      ch_isTerminal = None\<rparr>"

definition declineChoice :: "jsval Choice" where
  "declineChoice =
     \<lparr>ch_id = ''decline'', ch_text = ''Remain independent'', ch_gateId = None,
      ch_mutations = [], ch_nextEncounterId = None, ch_nextSpoolId = None,
      ch_isTerminal = Some True\<rparr>"

definition crossroads :: "jsval Encounter" where
  "crossroads =
     \<lparr>enc_id = ''crossroads'', enc_spoolId = ''prologue'',
      enc_choices = [joinAlliance, joinRivalry]\<rparr>"

definition proposeAlliance :: "jsval Encounter" where
  "proposeAlliance =
     \<lparr>enc_id = ''propose_alliance'', enc_spoolId = ''alliance_arc'',
      enc_choices = [proposeChoice, declineChoice]\<rparr>"

definition trustDilemma :: "jsval Storyworld" where
  "trustDilemma =
     \<lparr>sw_id = ''trust-dilemma'',
      sw_variables =
        [\<lparr>var_id = ''trust_level'', var_scope = GLOBAL, var_defaultValue = JNum 50\<rparr>,
         \<lparr>var_id = ''pact'', var_scope = DYADIC, var_defaultValue = JBool False\<rparr>,
         \<lparr>var_id = ''betrayed'', var_scope = AGENT, var_defaultValue = JBool False\<rparr>,
         \<lparr>var_id = ''hideout'', var_scope = LOCAL, var_defaultValue = JStr ''cave''\<rparr>],
      sw_gates =
        [\<lparr>gate_id = ''high_trust'',
          gate_condition = GateCondition ''GTE'' (Some ''trust_level'') (JNum 70) None\<rparr>],
      sw_spools =
        [\<lparr>sp_id = ''alliance_arc'', sp_name = ''Alliance Formation'',
          sp_description = ''An alliance'', sp_entryGateId = Some ''high_trust'',
          sp_entryEncounterId = ''propose_alliance''\<rparr>,
         \<lparr>sp_id = ''rivalry_arc'', sp_name = ''Rivalry'', sp_description = ''A feud'',
          sp_entryGateId = None, sp_entryEncounterId = ''taunt''\<rparr>],
      sw_encounters = [crossroads, proposeAlliance]\<rparr>"

definition twoAgents :: "AgentSlot list" where
  "twoAgents =
     [\<lparr>ag_id = ''agent-a'', ag_name = ''Alpha'', ag_isActive = True\<rparr>,
      \<lparr>ag_id = ''agent-b'', ag_name = ''Beta'', ag_isActive = True\<rparr>]"

text \<open>The engine after \<^verbatim>\<open>loadStoryworld\<close>, \<^verbatim>\<open>createSimulation\<close> and \<^verbatim>\<open>start\<close>.\<close>

definition running :: "jsval Engine" where
  "running =
     resultState
       (start (createSimulation ''sim-1'' ''run-001'' [''trust-dilemma''] twoAgents
                 (loadStoryworld trustDilemma (newEngine defaultConfig))))"

text \<open>The engine after one more call, \<^verbatim>\<open>processChoice(agentId, choiceId)\<close>.\<close>

definition afterChoice :: "jsval Engine \<Rightarrow> string \<Rightarrow> string \<Rightarrow> jsval Engine" where
  "afterChoice s agentId choiceId = resultState (processChoice jsRuntime s agentId choiceId)"

text \<open>
  The current-frame values of the simulation after each of successive calls of
  \<^verbatim>\<open>executeFrame\<close>, up to the first that throws.
\<close>

fun frameTrace :: "'v jsops \<Rightarrow> 'v AgentActionHandler list \<Rightarrow> 'v Engine \<Rightarrow> int list" where
  "frameTrace ops [] s = []"
| "frameTrace ops (actionHandler # rest) s =
     (case executeFrame ops actionHandler s of
        Inl thrown \<Rightarrow> []
      | Inr s' \<Rightarrow> sim_currentFrame (eng_simulation s') # frameTrace ops rest s')"

text \<open>
  A handler for the examples: agent-a answers with a choice and a message, every other
  agent times out.
\<close>

definition scriptedHandler :: "jsval AgentActionHandler" where
  "scriptedHandler i agentId view =
     (if agentId = ''agent-a''
      then Inr (Some \<lparr>act_choiceId = Some ''join_rivalry'', act_message = Some ''en garde''\<rparr>)
      else Inl ''Timeout'')"

definition afterFrame :: "jsval Engine" where
  "afterFrame = resultState (executeFrame jsRuntime scriptedHandler running)"


text \<open>The events and the ledger entry that \<^verbatim>\<open>processChoice\<close> builds for a choice.\<close>

definition variableChanged :: "'v Engine \<Rightarrow> string \<Rightarrow> 'v VariableMutation \<Rightarrow> 'v SimulationEvent" where
  "variableChanged s agentId mutation =
     newEvent s STATE ''VARIABLE_CHANGED''
       [(''variableId'', PString (mut_variableId mutation)),
        (''operation'', PString (mut_operation mutation)),
        (''value'', PValue (mut_value mutation))] (Some agentId)"

definition choiceMade :: "'v Engine \<Rightarrow> string \<Rightarrow> 'v Choice \<Rightarrow> 'v Encounter \<Rightarrow> 'v SimulationEvent" where
  "choiceMade s agentId foundChoice foundEncounter =
     newEvent s NARRATIVE ''CHOICE_MADE''
       [(''encounterId'', PString (enc_id foundEncounter)),
        (''choiceId'', PString (ch_id foundChoice)),
        (''choiceText'', PString (ch_text foundChoice))] (Some agentId)"

definition choiceRecord :: "'v Engine \<Rightarrow> string \<Rightarrow> 'v Choice \<Rightarrow> 'v Encounter \<Rightarrow> ChoiceRecord" where
  "choiceRecord s choiceId foundChoice foundEncounter =
     \<lparr>cr_frame = sim_currentFrame (eng_simulation s),
      cr_encounterId = enc_id foundEncounter,
      cr_choiceId = ch_id foundChoice,
      cr_availableChoices = map ch_id (enc_choices foundEncounter),
      cr_choiceIndex = findIndex (\<lambda>c. ch_id c = choiceId) (enc_choices foundEncounter)\<rparr>"


text \<open>The running engine after agent-a has entered the alliance spool and declined.\<close>

definition afterDecline :: "jsval Engine" where
  "afterDecline =
     afterChoice (afterChoice running ''agent-a'' ''join_alliance'') ''agent-a'' ''decline''"

text \<open>The values that \<^verbatim>\<open>uuid()\<close> returns during a first and during a second export.\<close>

definition uuidsOfFirstCall :: "nat \<Rightarrow> string" where
  "uuidsOfFirstCall n = ''1st-'' @ replicate n (CHR ''i'')"

definition uuidsOfSecondCall :: "nat \<Rightarrow> string" where
  "uuidsOfSecondCall n = ''2nd-'' @ replicate n (CHR ''i'')"


subsection \<open>The outcome of resolving a choice\<close>

text \<open>
  What the resolution of a choice is to leave behind, stated on the variable map and on the
  progress list of the agent, after the specification of World State and of choice
  resolution; \<^verbatim>\<open>processChoice\<close> is compared with it below.

  \<open>expectedValue\<close> is the new value of a variable, operation by operation; \<open>None\<close> where
  the operation throws (\<^verbatim>\<open>APPEND\<close> on a value that cannot be spread, \<^verbatim>\<open>REMOVE\<close> on a value
  without \<^verbatim>\<open>filter\<close>). An operation outside the seven sets the operand, as \<^verbatim>\<open>SET\<close> does.
\<close>

definition expectedValue :: "'v jsops \<Rightarrow> 'v \<Rightarrow> 'v VariableMutation \<Rightarrow> 'v option" where
  "expectedValue ops current mutation =
     (if mut_operation mutation = ''ADD'' then Some (js_add ops current (mut_value mutation))
      else if mut_operation mutation = ''SUBTRACT''
        then Some (js_sub ops current (mut_value mutation))
      else if mut_operation mutation = ''MULTIPLY''
        then Some (js_mul ops current (mut_value mutation))
      else if mut_operation mutation = ''APPEND''
        then js_spread_append ops current (mut_value mutation)
      else if mut_operation mutation = ''REMOVE''
        then js_filter_neq ops current (mut_value mutation)
      else if mut_operation mutation = ''TOGGLE'' then Some (js_not ops current)
      else Some (mut_value mutation))"

text \<open>
  One mutation on the variable map: a variable that is absent is left absent, one that is
  present gets its new value, the current frame and the acting agent.
\<close>

definition expectedVariable ::
  "'v jsops \<Rightarrow> int \<Rightarrow> string \<Rightarrow> (string \<times> 'v VariableState) list \<Rightarrow> 'v VariableMutation
   \<Rightarrow> (string \<times> 'v VariableState) list option" where
  "expectedVariable ops frame agentId variables mutation =
     (case Map_get variables (mut_variableId mutation) of
        None \<Rightarrow> Some variables
      | Some current \<Rightarrow>
          map_option
            (\<lambda>v. Map_set (mut_variableId mutation)
                    \<lparr>vs_variableId = mut_variableId mutation, vs_value = v,
                     vs_lastModifiedFrame = frame, vs_modifiedBy = Some agentId\<rparr> variables)
            (expectedValue ops (vs_value current) mutation))"

text \<open>
  The mutations of a choice in declaration order, up to the first that throws: how many
  were applied, and the variable map after them.
\<close>

fun expectedVariables ::
  "'v jsops \<Rightarrow> int \<Rightarrow> string \<Rightarrow> 'v VariableMutation list \<Rightarrow> (string \<times> 'v VariableState) list
   \<Rightarrow> nat \<times> (string \<times> 'v VariableState) list" where
  "expectedVariables ops frame agentId [] variables = (0, variables)"
| "expectedVariables ops frame agentId (mutation # rest) variables =
     (case expectedVariable ops frame agentId variables mutation of
        None \<Rightarrow> (0, variables)
      | Some variables' \<Rightarrow>
          (case expectedVariables ops frame agentId rest variables' of
             (applied, final) \<Rightarrow> (Suc applied, final)))"

text \<open>
  The narrative transition a choice names, by priority: a terminal choice completes the
  spool of its encounter, else a next encounter is started, else a next spool is entered.
  An id that is absent or empty names nothing.
\<close>

datatype Transition = Complete string | Advance string | Enter string | Stay

fun named :: "string option \<Rightarrow> string option" where
  "named (Some (c # cs)) = Some (c # cs)"
| "named other = None"

definition transitionOf :: "'v Choice \<Rightarrow> 'v Encounter \<Rightarrow> Transition" where
  "transitionOf choice encounter =
     (if ch_isTerminal choice = Some True then Complete (enc_spoolId encounter)
      else case named (ch_nextEncounterId choice) of
             Some encounterId \<Rightarrow> Advance encounterId
           | None \<Rightarrow>
               (case named (ch_nextSpoolId choice) of
                  Some spoolId \<Rightarrow> Enter spoolId
                | None \<Rightarrow> Stay))"

text \<open>
  The progress list of the agent after the transition: every entry of the completed spool
  is COMPLETED at the current frame; every ACTIVE entry is at the encounter started; an
  entered spool of the storyworld gets a new ACTIVE entry at its entry encounter, last.
\<close>

fun expectedProgress ::
  "'v Storyworld \<Rightarrow> int \<Rightarrow> string \<Rightarrow> Transition \<Rightarrow> SpoolProgress list \<Rightarrow> SpoolProgress list"
  where
  "expectedProgress storyworld frame agentId (Complete spoolId) progress =
     map (\<lambda>p. if pr_spoolId p = spoolId
               then p\<lparr>pr_status := COMPLETED, pr_completedAtFrame := Some frame\<rparr> else p)
       progress"
| "expectedProgress storyworld frame agentId (Advance encounterId) progress =
     map (\<lambda>p. if pr_status p = ACTIVE then p\<lparr>pr_currentEncounterId := Some encounterId\<rparr> else p)
       progress"
| "expectedProgress storyworld frame agentId (Enter spoolId) progress =
     progress @
     map (\<lambda>spool. \<lparr>pr_spoolId = spoolId, pr_agentId = agentId, pr_status = ACTIVE,
                    pr_currentEncounterId = Some (sp_entryEncounterId spool),
                    pr_enteredAtFrame = frame, pr_completedAtFrame = None,
                    pr_choiceHistory = []\<rparr>)
       (take 1 (filter (\<lambda>spool. sp_id spool = spoolId) (sw_spools storyworld)))"
| "expectedProgress storyworld frame agentId Stay progress = progress"

text \<open>The event of the transition, emitted by the agent after \<^verbatim>\<open>CHOICE_MADE\<close>.\<close>

fun expectedEvents ::
  "'v Engine \<Rightarrow> 'v Storyworld \<Rightarrow> string \<Rightarrow> Transition \<Rightarrow> 'v SimulationEvent list" where
  "expectedEvents s storyworld agentId (Complete spoolId) =
     [newEvent s NARRATIVE ''SPOOL_COMPLETED'' [(''spoolId'', PString spoolId)] (Some agentId)]"
| "expectedEvents s storyworld agentId (Advance encounterId) =
     [newEvent s NARRATIVE ''ENCOUNTER_STARTED'' [(''encounterId'', PString encounterId)]
        (Some agentId)]"
| "expectedEvents s storyworld agentId (Enter spoolId) =
     (if spoolId \<in> sp_id ` set (sw_spools storyworld)
      then [newEvent s NARRATIVE ''SPOOL_ENTERED'' [(''spoolId'', PString spoolId)] (Some agentId)]
      else [])"
| "expectedEvents s storyworld agentId Stay = []"

text \<open>The variable map of the world state of the first storyworld.\<close>

definition worldVariables :: "'v Engine \<Rightarrow> (string \<times> 'v VariableState) list option" where
  "worldVariables s = map_option ws_variables (currentWorldState s)"

subsection \<open>A storyworld with every mutation operation\<close>

text \<open>
  The trust dilemma with a set of allies and an encounter of the rivalry spool. Its first
  choice is gated and terminal and uses the operations that \<^verbatim>\<open>propose\<close> does not, one of
  them on a variable that does not exist; its second choice appends to a number between
  two additions.
\<close>

definition pledgeChoice :: "jsval Choice" where
  "pledgeChoice =
     \<lparr>ch_id = ''pledge'', ch_text = ''Pledge loyalty'', ch_gateId = Some ''high_trust'',
      ch_mutations =
        [\<lparr>mut_variableId = ''trust_level'', mut_operation = ''SUBTRACT'', mut_value = JNum 5\<rparr>,
         \<lparr>mut_variableId = ''trust_level'', mut_operation = ''MULTIPLY'', mut_value = JNum 2\<rparr>,
         \<lparr>mut_variableId = ''betrayed'', mut_operation = ''TOGGLE'', mut_value = JNull\<rparr>,
         \<lparr>mut_variableId = ''allies'', mut_operation = ''APPEND'', mut_value = JStr ''beta''\<rparr>,
         \<lparr>mut_variableId = ''allies'', mut_operation = ''REMOVE'', mut_value = JStr ''gamma''\<rparr>,
         \<lparr>mut_variableId = ''hideout'', mut_operation = ''SET'', mut_value = JStr ''tower''\<rparr>,
         \<lparr>mut_variableId = ''oath'', mut_operation = ''SET'', mut_value = JBool True\<rparr>],
      ch_nextEncounterId = Some ''negotiate_terms'', ch_nextSpoolId = None,
      ch_isTerminal = Some True\<rparr>"

definition mixupChoice :: "jsval Choice" where
  "mixupChoice =
     \<lparr>ch_id = ''mixup'', ch_text = ''Count an ally as trust'', ch_gateId = None,
      ch_mutations =
        [\<lparr>mut_variableId = ''trust_level'', mut_operation = ''ADD'', mut_value = JNum 25\<rparr>,
         \<lparr>mut_variableId = ''trust_level'', mut_operation = ''APPEND'', mut_value = JStr ''beta''\<rparr>,
         \<lparr>mut_variableId = ''trust_level'', mut_operation = ''ADD'', mut_value = JNum 25\<rparr>],
      ch_nextEncounterId = Some ''negotiate_terms'', ch_nextSpoolId = None,
      ch_isTerminal = None\<rparr>"

definition council :: "jsval Encounter" where
  "council =
     \<lparr>enc_id = ''council'', enc_spoolId = ''rivalry_arc'',
      enc_choices = [pledgeChoice, mixupChoice]\<rparr>"

definition courtIntrigue :: "jsval Storyworld" where
  "courtIntrigue =
     trustDilemma
       \<lparr>sw_variables := sw_variables trustDilemma @
          [\<lparr>var_id = ''allies'', var_scope = GLOBAL, var_defaultValue = JArr [JStr ''gamma'']\<rparr>],
        sw_encounters := sw_encounters trustDilemma @ [council]\<rparr>"

text \<open>
  The engine after \<^verbatim>\<open>loadStoryworld\<close>, \<^verbatim>\<open>createSimulation\<close> and \<^verbatim>\<open>start\<close>, and then after
  agent-a has entered the rivalry spool, where its current encounter is \<^verbatim>\<open>taunt\<close>.
\<close>

definition court :: "jsval Engine" where
  "court =
     resultState
       (start (createSimulation ''sim-2'' ''run-002'' [''trust-dilemma''] twoAgents
                 (loadStoryworld courtIntrigue (newEngine defaultConfig))))"

definition atTaunt :: "jsval Engine" where
  "atTaunt = afterChoice court ''agent-a'' ''join_rivalry''"

section \<open>Gate evaluation\<close>

lemma evaluateCondition_agentId:
  "evaluateCondition ops ws agentId condition = evaluateCondition ops ws agentId' condition"
proof (induction ops ws agentId condition rule: evaluateCondition.induct)
  case (1 ops ws agentId operator variableId val children)
  consider (conj) "operator = ''AND''" | (disj) "operator = ''OR''" | (neg) "operator = ''NOT''"
    | (leaf) "operator \<noteq> ''AND''" "operator \<noteq> ''OR''" "operator \<noteq> ''NOT''"
    by blast
  then show ?case
  proof cases
    case conj
    have "list_all (evaluateCondition ops ws agentId) (childrenOrEmpty children)
        = list_all (evaluateCondition ops ws agentId') (childrenOrEmpty children)"
      by (rule list_all_cong[OF refl]) (rule "1.IH"(1), simp_all add: conj)
    with conj show ?thesis by simp
  next
    case disj
    have "list_ex (evaluateCondition ops ws agentId) (childrenOrEmpty children)
        = list_ex (evaluateCondition ops ws agentId') (childrenOrEmpty children)"
      by (rule list_ex_cong[OF refl]) (rule "1.IH"(2), simp_all add: disj)
    with disj show ?thesis by simp
  next
    case neg
    show ?thesis
    proof (cases "childrenOrEmpty children")
      case Nil
      with neg show ?thesis by simp
    next
      case (Cons c cs)
      have "evaluateCondition ops ws agentId c = evaluateCondition ops ws agentId' c"
        by (rule "1.IH"(3)[OF _ _ _ _ _ _ _ _ _ _ _ _ _ _ Cons]) (simp_all add: neg)
      with neg Cons show ?thesis by simp
    qed
  next
    case leaf
    then show ?thesis by simp
  qed
qed

lemma evaluate_agentId:
  "evaluate ops storyworld gateId ws agentId = evaluate ops storyworld gateId ws agentId'"
  by (simp add: evaluate_def evaluateCondition_agentId[of ops ws agentId _ agentId']
      split: option.splits)

text \<open>
  C10. Gate evaluation does not depend on the agent: \<^verbatim>\<open>evaluate\<close> and
  \<^verbatim>\<open>evaluateCondition\<close> return the same boolean for any two \<^verbatim>\<open>agentId\<close> arguments (given or
  omitted), whatever the gate id, the condition and the world state. The entry gate of a
  spool is evaluated by the same function, so it gives every agent the same answer.
\<close>

theorem gate_evaluation_agent_independent:
  "evaluate ops storyworld gateId ws agentId = evaluate ops storyworld gateId ws agentId'
   \<and> evaluateCondition ops ws agentId condition = evaluateCondition ops ws agentId' condition"
  using evaluate_agentId evaluateCondition_agentId by blast

theorem gate_evaluation_agent_independent_witness:
  "evaluate jsRuntime trustDilemma ''high_trust'' (newWorldState trustDilemma) (Some ''agent-a'')
     = evaluate jsRuntime trustDilemma ''high_trust'' (newWorldState trustDilemma) (Some ''agent-b'')
   \<and> evaluateCondition jsRuntime (newWorldState trustDilemma) (Some ''agent-a'')
       (GateCondition ''LT'' (Some ''trust_level'') (JNum 70) None)
     = evaluateCondition jsRuntime (newWorldState trustDilemma) (Some ''agent-b'')
       (GateCondition ''LT'' (Some ''trust_level'') (JNum 70) None)
   \<and> \<not> evaluate jsRuntime trustDilemma ''high_trust'' (newWorldState trustDilemma) (Some ''agent-b'')"
proof -
  have closed: "\<not> evaluate jsRuntime trustDilemma ''high_trust'' (newWorldState trustDilemma)
                    (Some ''agent-b'')"
    by code_simp
  from gate_evaluation_agent_independent
    [where ops = jsRuntime and storyworld = trustDilemma and gateId = "''high_trust''"
       and ws = "newWorldState trustDilemma" and agentId = "Some ''agent-a''"
       and agentId' = "Some ''agent-b''"
       and condition = "GateCondition ''LT'' (Some ''trust_level'') (JNum 70) None"]
  show ?thesis using closed by blast
qed

text \<open>
  C3, as the code has it. A condition whose operator is none of the thirteen of
  \<^verbatim>\<open>GateOperatorSchema\<close> takes the \<^verbatim>\<open>default\<close> branch and evaluates to true, and a \<^verbatim>\<open>NOT\<close>
  whose child list is missing or empty evaluates to true: \<^verbatim>\<open>evaluateCondition\<close> returns a
  boolean on every input and has no error to fail with.
\<close>

theorem malformed_gate_evaluates_true:
  "(operator \<notin> set gateOperators \<longrightarrow>
      evaluateCondition ops ws agentId (GateCondition operator variableId val children))
   \<and> (children = None \<or> children = Some [] \<longrightarrow>
      evaluateCondition ops ws agentId (GateCondition ''NOT'' variableId val children))"
  by (auto simp: gateOperators_def)

theorem malformed_gate_evaluates_true_witness:
  "''XOR'' \<notin> set gateOperators
   \<and> evaluateCondition jsRuntime (newWorldState trustDilemma) (Some ''agent-a'')
       (GateCondition ''XOR'' None JUndefined (Some []))
   \<and> evaluateCondition jsRuntime (newWorldState trustDilemma) (Some ''agent-a'')
       (GateCondition ''NOT'' None JUndefined (Some []))"
proof -
  have unknown: "''XOR'' \<notin> set gateOperators" by (simp add: gateOperators_def)
  from malformed_gate_evaluates_true
    [where operator = "''XOR''" and ops = jsRuntime and ws = "newWorldState trustDilemma"
       and agentId = "Some ''agent-a''" and variableId = None and val = JUndefined
       and children = "Some []"]
  show ?thesis using unknown by blast
qed

text \<open>
  C3, as the claim has it, fails: the three malformed conditions below (an operator
  \<^verbatim>\<open>XOR\<close>, a \<^verbatim>\<open>NOT\<close> without a child list, a \<^verbatim>\<open>NOT\<close> with an empty one) evaluate to true,
  and a gate made of the first is open.
\<close>

theorem malformed_gate_counterexample:
  "evaluateCondition jsRuntime (newWorldState trustDilemma) (Some ''agent-a'')
     (GateCondition ''XOR'' (Some ''trust_level'') (JNum 70) None) = True
   \<and> evaluateCondition jsRuntime (newWorldState trustDilemma) (Some ''agent-a'')
     (GateCondition ''NOT'' None JUndefined None) = True
   \<and> evaluateCondition jsRuntime (newWorldState trustDilemma) (Some ''agent-a'')
     (GateCondition ''NOT'' None JUndefined (Some [])) = True
   \<and> evaluate jsRuntime
       (trustDilemma\<lparr>sw_gates :=
          [\<lparr>gate_id = ''high_trust'',
            gate_condition = GateCondition ''XOR'' (Some ''trust_level'') (JNum 70) None\<rparr>]\<rparr>)
       ''high_trust'' (newWorldState trustDilemma) (Some ''agent-a'') = True"
  by (simp add: evaluate_def)

section \<open>Frame execution\<close>

lemma sameClock_refl: "sameClock s s"
  by (simp add: sameClock_def)

lemma sameClock_trans: "sameClock s s1 \<Longrightarrow> sameClock s1 s2 \<Longrightarrow> sameClock s s2"
  by (simp add: sameClock_def)

lemma sameClock_emitEvent: "sameClock s (emitEvent category eventType payload actorId s)"
  by (simp add: sameClock_def emitEvent_def worldFrames_def)

lemma Map_set_frames:
  "Map_get m k = Some w \<Longrightarrow> ws_frame w' = ws_frame w \<Longrightarrow>
   map (\<lambda>(k, ws). (k, ws_frame ws)) (Map_set k w' m) = map (\<lambda>(k, ws). (k, ws_frame ws)) m"
  by (induction m) (auto split: if_splits)

lemma Map_get_Map_set: "Map_get (Map_set k v m) k' = (if k' = k then Some v else Map_get m k')"
  by (induction m) auto

lemma sameClock_storeWorldState:
  "Map_get (eng_worldStates s) sid = Some ws \<Longrightarrow> ws_frame ws' = ws_frame ws \<Longrightarrow>
   sameClock s (storeWorldState sid ws' s)"
  by (simp add: sameClock_def storeWorldState_def worldFrames_def Map_set_frames)

lemma applyMutation_frame:
  "applyMutation ops ws m a = Some ws' \<Longrightarrow>
   ws_frame ws' = ws_frame ws \<and> ws_spoolProgress ws' = ws_spoolProgress ws"
  by (auto simp: applyMutation_def setVariable_def Let_def split: option.splits if_splits)

lemma sameClock_applyMutations:
  "Map_get (eng_worldStates s) sid = Some ws \<Longrightarrow>
   sameClock s (resultState (applyMutations ops sid a ms ws s))"
proof (induction ms arbitrary: ws s)
  case Nil
  then show ?case by (simp add: sameClock_refl)
next
  case (Cons m ms)
  show ?case
  proof (cases "applyMutation ops ws m a")
    case None
    then show ?thesis by (simp add: sameClock_refl)
  next
    case (Some ws')
    let ?s1 = "storeWorldState sid ws' s"
    let ?s2 = "emitEvent STATE ''VARIABLE_CHANGED''
               [(''variableId'', PString (mut_variableId m)),
                (''operation'', PString (mut_operation m)),
                (''value'', PValue (mut_value m))] (Some a) ?s1"
    have f: "ws_frame ws' = ws_frame ws" using applyMutation_frame[OF Some] by simp
    have c1: "sameClock s ?s1" by (rule sameClock_storeWorldState[OF Cons.prems f])
    have c2: "sameClock ?s1 ?s2" by (rule sameClock_emitEvent)
    have g: "Map_get (eng_worldStates ?s2) sid = Some ws'"
      by (simp add: emitEvent_def storeWorldState_def Map_get_Map_set)
    have c3: "sameClock ?s2 (resultState (applyMutations ops sid a ms ws' ?s2))"
      by (rule Cons.IH[OF g])
    from Some show ?thesis
      using sameClock_trans[OF sameClock_trans[OF c1 c2] c3] by simp
  qed
qed

lemma sameClock_recordChoice: "sameClock s (recordChoice s a cid ch enc)"
  by (simp add: sameClock_def recordChoice_def worldFrames_def split: option.splits)

lemma recordChoice_worldStates:
  "eng_worldStates (recordChoice s a cid ch enc) = eng_worldStates s"
  by (simp add: recordChoice_def split: option.splits)

lemma sameClock_setAgentSpools_store:
  "Map_get (eng_worldStates s) sid = Some ws \<Longrightarrow>
   sameClock s (storeWorldState sid (setAgentSpools ws a p) s)"
  by (rule sameClock_storeWorldState) (simp_all add: setAgentSpools_def)

lemma sameClock_completeSpool: "sameClock s (completeSpool s a spoolId)"
  by (auto simp: completeSpool_def Let_def sameClock_refl
      intro!: sameClock_trans[OF sameClock_setAgentSpools_store sameClock_emitEvent]
      split: option.splits)

lemma sameClock_advanceToEncounter: "sameClock s (advanceToEncounter s a encounterId)"
  by (auto simp: advanceToEncounter_def Let_def sameClock_refl
      intro!: sameClock_trans[OF sameClock_setAgentSpools_store sameClock_emitEvent]
      split: option.splits)

lemma sameClock_enterSpool: "sameClock s (enterSpool s a spoolId)"
  by (auto simp: enterSpool_def Let_def sameClock_refl
      intro!: sameClock_trans[OF sameClock_setAgentSpools_store sameClock_emitEvent]
      split: option.splits)

lemma sameClock_narrativeTransition: "sameClock s (narrativeTransition s a ch enc)"
  by (simp add: narrativeTransition_def sameClock_refl sameClock_completeSpool
      sameClock_advanceToEncounter sameClock_enterSpool split: option.splits)

lemma sameClock_processChoice: "sameClock s (resultState (processChoice ops s a cid))"
proof -
  { fix sid sw ws ch enc
    assume g: "Map_get (eng_worldStates s) sid = Some ws"
    let ?r = "applyMutations ops sid a (ch_mutations ch) ws (recordChoice s a cid ch enc)"
    have g': "Map_get (eng_worldStates (recordChoice s a cid ch enc)) sid = Some ws"
      using g by (simp add: recordChoice_worldStates)
    have c: "sameClock s (resultState ?r)"
      by (rule sameClock_trans[OF sameClock_recordChoice sameClock_applyMutations[OF g']])
    have "sameClock s (resultState
        (case ?r of Inl thrown \<Rightarrow> Inl thrown
         | Inr s' \<Rightarrow> Inr (narrativeTransition
               (emitEvent NARRATIVE ''CHOICE_MADE''
                  [(''encounterId'', PString (enc_id enc)), (''choiceId'', PString (ch_id ch)),
                   (''choiceText'', PString (ch_text ch))] (Some a) s') a ch enc)))"
    proof (cases ?r)
      case (Inl t)
      with c show ?thesis by simp
    next
      case (Inr s')
      with c have "sameClock s s'" by simp
      then show ?thesis using Inr
        by (simp add: sameClock_trans[OF sameClock_trans[OF _ sameClock_emitEvent]
              sameClock_narrativeTransition])
    qed }
  then show ?thesis
    by (auto simp: processChoice_def sameClock_refl sameClock_emitEvent
        split: option.splits prod.splits)
qed


lemma sameClock_resolveActions: "sameClock s (resultState (resolveActions ops actions s))"
proof (induction actions arbitrary: s)
  case Nil
  then show ?case by (simp add: sameClock_refl)
next
  case (Cons p actions)
  obtain agentId action where p: "p = (agentId, action)" by (cases p)
  let ?r = "(case act_choiceId action of None \<Rightarrow> Inr s
             | Some choiceId \<Rightarrow>
                 if choiceId \<noteq> [] then processChoice ops s agentId choiceId else Inr s)"
  have c: "sameClock s (resultState ?r)"
    by (simp add: sameClock_refl sameClock_processChoice split: option.splits)
  show ?case
  proof (cases ?r)
    case (Inl t)
    with c p show ?thesis by simp
  next
    case (Inr s')
    let ?s2 = "(case act_message action of None \<Rightarrow> s'
               | Some message \<Rightarrow>
                   if message \<noteq> []
                   then emitEvent COMMUNICATION ''MESSAGE_SENT''
                          [(''content'', PString message), (''channel'', PString ''NARRATIVE'')]
                          (Some agentId) s'
                   else s')"
    from c Inr have c1: "sameClock s s'" by simp
    have c2: "sameClock s' ?s2"
      by (simp add: sameClock_refl sameClock_emitEvent split: option.splits)
    have "sameClock s (resultState (resolveActions ops actions ?s2))"
      by (rule sameClock_trans[OF sameClock_trans[OF c1 c2] Cons.IH])
    with p Inr show ?thesis by simp
  qed
qed

lemma sameClock_observeAgents:
  "observeAgents ops agents views s = Inr (views', s') \<Longrightarrow> sameClock s s'"
proof (induction agents arbitrary: views s)
  case Nil
  then show ?case by (simp add: sameClock_refl)
next
  case (Cons agent agents)
  show ?case
  proof (cases "ag_isActive agent")
    case False
    with Cons show ?thesis by simp
  next
    case True
    with Cons.prems obtain view where
      v: "buildAgentView ops s (ag_id agent) = Inr view"
      by (auto split: sum.splits)
    with True Cons.prems have
      "sameClock (emitEvent SYSTEM ''VIEW_DELIVERED''
                     [(''agentId'', PString (ag_id agent)),
                      (''hasEncounter'', PBoolean (av_currentEncounter view \<noteq> None)),
                      (''choiceCount'', PNumber (int (length (av_availableChoices view))))]
                     (Some (ag_id agent)) s) s'"
      by (intro Cons.IH) simp
    then show ?thesis by (rule sameClock_trans[OF sameClock_emitEvent])
  qed
qed

lemma sameClock_collectActions:
  "collectActions h views i agents actions s = (actions', s') \<Longrightarrow> sameClock s s'"
proof (induction agents arbitrary: i actions s)
  case Nil
  then show ?case by (simp add: sameClock_refl)
next
  case (Cons agent agents)
  then show ?case
    by (auto split: if_splits option.splits sum.splits
        intro: sameClock_trans[OF sameClock_emitEvent])
qed

lemma advanceAll_frames:
  "sim_currentFrame (eng_simulation (checkCompletion (advanceAll s)))
     = sim_currentFrame (eng_simulation s) + 1
   \<and> worldFrames (checkCompletion (advanceAll s)) = map (\<lambda>(k, f). (k, f + 1)) (worldFrames s)"
  by (auto simp: checkCompletion_def advanceAll_def complete_def emitEvent_def worldFrames_def
      advanceFrame_def)

lemma executeFrame_step:
  assumes "executeFrame ops h s = Inr s'"
  shows "sim_currentFrame (eng_simulation s') = sim_currentFrame (eng_simulation s) + 1
       \<and> worldFrames s' = map (\<lambda>(k, f). (k, f + 1)) (worldFrames s)"
proof -
  from assms obtain views s1 actions s2 s3 where
    o: "observeAgents ops (sim_agents (eng_simulation s)) [] s = Inr (views, s1)" and
    c: "collectActions h views 0 (sim_agents (eng_simulation s1)) [] s1 = (actions, s2)" and
    r: "resolveActions ops actions s2 = Inr s3" and
    e: "s' = checkCompletion (advanceAll s3)"
    by (auto simp: executeFrame_def split: if_splits sum.splits prod.splits)
  have "sameClock s2 s3" using sameClock_resolveActions[of s2 ops actions] r by simp
  with sameClock_observeAgents[OF o] sameClock_collectActions[OF c]
  have "sameClock s s3" by (blast intro: sameClock_trans)
  then show ?thesis using advanceAll_frames[of s3] e by (simp add: sameClock_def)
qed

lemma frameTrace_successive:
  "successively (\<lambda>f f'. f' = f + 1)
     (sim_currentFrame (eng_simulation s) # frameTrace ops hs s)"
proof (induction hs arbitrary: s)
  case Nil
  then show ?case by simp
next
  case (Cons h hs)
  show ?case
  proof (cases "executeFrame ops h s")
    case (Inl t)
    then show ?thesis by simp
  next
    case (Inr s1)
    from executeFrame_step[OF Inr] Cons.IH[of s1] Inr show ?thesis by simp
  qed
qed

text \<open>
  C2. Frame monotonicity. A call of \<^verbatim>\<open>executeFrame\<close> that returns leaves the simulation's
  current frame exactly one higher and the frame counter of every loaded world state
  exactly one higher. Hence over successive calls the observed current-frame values go up
  by one from call to call: they increase strictly, none is repeated, none goes down.
\<close>

theorem frame_monotonicity:
  "(executeFrame ops actionHandler s = Inr s' \<longrightarrow>
      sim_currentFrame (eng_simulation s') = sim_currentFrame (eng_simulation s) + 1
      \<and> worldFrames s' = map (\<lambda>(k, f). (k, f + 1)) (worldFrames s))
   \<and> successively (\<lambda>f f'. f' = f + 1)
       (sim_currentFrame (eng_simulation s) # frameTrace ops actionHandlers s)
   \<and> sorted_wrt (<) (sim_currentFrame (eng_simulation s) # frameTrace ops actionHandlers s)"
proof -
  let ?trace = "sim_currentFrame (eng_simulation s) # frameTrace ops actionHandlers s"
  have succ: "successively (\<lambda>f f'. f' = f + 1) ?trace" by (rule frameTrace_successive)
  then have "successively (<) ?trace" by (rule successively_mono) simp
  then have "sorted_wrt (<) ?trace" by (simp add: successively_conv_sorted_wrt)
  with succ executeFrame_step[of ops actionHandler s s'] show ?thesis by blast
qed

theorem frame_monotonicity_witness:
  "executeFrame jsRuntime scriptedHandler running = Inr afterFrame
   \<and> sim_currentFrame (eng_simulation running) = 0
   \<and> sim_currentFrame (eng_simulation afterFrame) = 1
   \<and> worldFrames running = [(''trust-dilemma'', 0)]
   \<and> worldFrames afterFrame = [(''trust-dilemma'', 1)]
   \<and> frameTrace jsRuntime [scriptedHandler, scriptedHandler] running = [1, 2]"
proof -
  have run: "executeFrame jsRuntime scriptedHandler running = Inr afterFrame"
    unfolding afterFrame_def by code_simp
  have before: "sim_currentFrame (eng_simulation running) = 0"
    "worldFrames running = [(''trust-dilemma'', 0)]"
    by code_simp+
  have trace: "frameTrace jsRuntime [scriptedHandler, scriptedHandler] running = [1, 2]"
    by code_simp
  from frame_monotonicity[where ops = jsRuntime and actionHandler = scriptedHandler
      and s = running and s' = afterFrame] run before
  have "sim_currentFrame (eng_simulation afterFrame) = 1"
    "worldFrames afterFrame = [(''trust-dilemma'', 1)]"
    by simp_all
  with run before trace show ?thesis by simp
qed

section \<open>Choice resolution\<close>

lemma findChoice_None:
  "findChoice encounters choiceId = None \<longleftrightarrow>
   (\<forall>encounter \<in> set encounters. choiceId \<notin> ch_id ` set (enc_choices encounter))"
  by (induction encounters) (auto simp: find_None_iff split: option.splits dest: find_Some_iff[THEN iffD1])

lemma find_Some_props: "find P xs = Some x \<Longrightarrow> x \<in> set xs \<and> P x"
  by (induction xs) (auto split: if_splits)

lemma findChoice_Some:
  "findChoice encounters choiceId = Some (choice, encounter) \<Longrightarrow>
   encounter \<in> set encounters \<and> find (\<lambda>c. ch_id c = choiceId) (enc_choices encounter) = Some choice
   \<and> choice \<in> set (enc_choices encounter) \<and> ch_id choice = choiceId"
  by (induction encounters) (auto split: option.splits dest: find_Some_props)

lemma findIndex_find:
  "find P xs = Some x \<Longrightarrow>
   0 \<le> findIndex P xs \<and> findIndex P xs < int (length xs) \<and> xs ! nat (findIndex P xs) = x"
proof (induction xs)
  case Nil
  then show ?case by simp
next
  case (Cons y ys)
  show ?case
  proof (cases "P y")
    case True
    with Cons.prems show ?thesis by simp
  next
    case False
    with Cons have ih: "0 \<le> findIndex P ys" "findIndex P ys < int (length ys)"
      "ys ! nat (findIndex P ys) = x" by simp_all
    with False show ?thesis by (simp add: Let_def nat_add_distrib)
  qed
qed

lemma Map_set_same: "Map_get m k = Some v \<Longrightarrow> Map_set k v m = m"
  by (induction m) (auto split: if_splits)

lemma Map_set_Map_set: "Map_set k v (Map_set k v' m) = Map_set k v m"
  by (induction m) auto

text \<open>The mutation loop, unrolled.\<close>

lemma variableChanged_update [simp]:
  "variableChanged (s\<lparr>eng_worldStates := w, eng_events := e\<rparr>) a = variableChanged s a"
  by (rule ext) (simp add: variableChanged_def newEvent_def)



lemma ledger_emitEvent [simp]: "ledger (emitEvent c t p a s) b = ledger s b"
  by (simp add: ledger_def emitEvent_def)

lemma sessionData_storeWorldState [simp]:
  "eng_sessionData (storeWorldState sid ws s) = eng_sessionData s"
  by (simp add: storeWorldState_def)

lemma sessionData_emitEvent [simp]:
  "eng_sessionData (emitEvent c t p a s) = eng_sessionData s"
  by (simp add: emitEvent_def)

lemma sessionData_narrativeTransition [simp]:
  "eng_sessionData (narrativeTransition s a ch enc) = eng_sessionData s"
  by (simp add: narrativeTransition_def completeSpool_def advanceToEncounter_def enterSpool_def
      Let_def split: option.splits)

lemma sessionData_applyMutations [simp]:
  "eng_sessionData (resultState (applyMutations ops sid a ms ws s)) = eng_sessionData s"
  by (induction ms arbitrary: ws s) (auto split: option.splits)

lemma ledger_recordChoice:
  "ledger (recordChoice s a cid ch enc) b =
     ledger s b @ (if b = a \<and> Map_get (eng_sessionData s) a \<noteq> None
                   then [choiceRecord s cid ch enc] else [])"
  by (auto simp: ledger_def recordChoice_def choiceRecord_def Map_get_Map_set split: option.splits)

lemma sessionData_processChoice_found:
  assumes "firstStoryworldId s = Some sid" "Map_get (eng_storyworlds s) sid = Some sw"
    "Map_get (eng_worldStates s) sid = Some ws" "findChoice (sw_encounters sw) cid = Some (ch, enc)"
  shows "eng_sessionData (resultState (processChoice ops s a cid))
       = eng_sessionData (recordChoice s a cid ch enc)"
proof -
  let ?r = "applyMutations ops sid a (ch_mutations ch) ws (recordChoice s a cid ch enc)"
  have "eng_sessionData (resultState ?r) = eng_sessionData (recordChoice s a cid ch enc)" by simp
  then show ?thesis using assms
    by (cases ?r) (auto simp: processChoice_def)
qed





lemma getAgentSpools_setAgentSpools:
  "getAgentSpools (setAgentSpools ws a p) b = (if b = a then p else getAgentSpools ws b)"
  by (simp add: getAgentSpools_def setAgentSpools_def Map_get_Map_set)

lemma findChoice_exists:
  assumes "encounter0 \<in> set encounters" "choiceId \<in> ch_id ` set (enc_choices encounter0)"
  shows "\<exists>choice encounter. findChoice encounters choiceId = Some (choice, encounter)"
proof (cases "findChoice encounters choiceId")
  case None
  with assms show ?thesis by (simp add: findChoice_None)
next
  case (Some p)
  then show ?thesis by (cases p) simp
qed

lemma firstStoryworldId_emitEvent [simp]:
  "firstStoryworldId (emitEvent c t p a s) = firstStoryworldId s"
  by (simp add: firstStoryworldId_def emitEvent_def)

lemma firstStoryworldId_storeWorldState [simp]:
  "firstStoryworldId (storeWorldState sid ws s) = firstStoryworldId s"
  by (simp add: firstStoryworldId_def storeWorldState_def)

lemma worldStates_emitEvent [simp]: "eng_worldStates (emitEvent c t p a s) = eng_worldStates s"
  by (simp add: emitEvent_def)

lemma worldStates_storeWorldState [simp]:
  "eng_worldStates (storeWorldState sid ws s) = Map_set sid ws (eng_worldStates s)"
  by (simp add: storeWorldState_def)

lemma events_emitEvent [simp]:
  "eng_events (emitEvent c t p a s) = eng_events s @ [newEvent s c t p a]"
  by (simp add: emitEvent_def)

lemma newEvent_storeWorldState [simp]:
  "newEvent (storeWorldState sid ws s) = newEvent s"
  by (intro ext) (simp add: newEvent_def storeWorldState_def)

lemma processChoice_cases:
  "(\<exists>sid sw ws ch enc.
      firstStoryworldId s = Some sid \<and> Map_get (eng_storyworlds s) sid = Some sw
      \<and> Map_get (eng_worldStates s) sid = Some ws
      \<and> findChoice (sw_encounters sw) cid = Some (ch, enc))
   \<or> eng_sessionData (resultState (processChoice ops s a cid)) = eng_sessionData s"
proof (cases "firstStoryworldId s")
  case None
  then show ?thesis by (simp add: processChoice_def)
next
  case sid: (Some sid)
  show ?thesis
  proof (cases "Map_get (eng_storyworlds s) sid")
    case None
    with sid show ?thesis by (simp add: processChoice_def)
  next
    case sw: (Some sw)
    show ?thesis
    proof (cases "Map_get (eng_worldStates s) sid")
      case None
      with sid sw show ?thesis by (simp add: processChoice_def)
    next
      case ws: (Some ws)
      show ?thesis
      proof (cases "findChoice (sw_encounters sw) cid")
        case None
        with sid sw ws show ?thesis by (simp add: processChoice_def)
      next
        case (Some p)
        then obtain ch enc where "findChoice (sw_encounters sw) cid = Some (ch, enc)"
          by (cases p) simp
        with sid sw ws show ?thesis by blast
      qed
    qed
  qed
qed

text \<open>
  C4. Invalid-choice atomicity. With the first storyworld loaded, a choice id that occurs in
  no encounter of it makes \<^verbatim>\<open>processChoice\<close> return after appending one event of category
  SYSTEM and type \<^verbatim>\<open>INVALID_CHOICE\<close>, with the agent as actor, to the log: the engine is
  otherwise unchanged, so no variable state, no spool progress and no session ledger
  changes.
\<close>

theorem invalid_choice_atomic:
  assumes "firstStoryworldId s = Some storyworldId"
    and "Map_get (eng_storyworlds s) storyworldId = Some storyworld"
    and "Map_get (eng_worldStates s) storyworldId = Some ws"
    and "\<forall>encounter \<in> set (sw_encounters storyworld).
           choiceId \<notin> ch_id ` set (enc_choices encounter)"
  shows "processChoice ops s agentId choiceId =
           Inr (s\<lparr>eng_events := eng_events s @
                    [newEvent s SYSTEM ''INVALID_CHOICE'' [(''choiceId'', PString choiceId)]
                       (Some agentId)]\<rparr>)
         \<and> eng_worldStates (resultState (processChoice ops s agentId choiceId))
             = eng_worldStates s
         \<and> eng_sessionData (resultState (processChoice ops s agentId choiceId))
             = eng_sessionData s"
proof -
  from assms(4) have "findChoice (sw_encounters storyworld) choiceId = None"
    by (simp add: findChoice_None)
  with assms(1-3) show ?thesis by (simp add: processChoice_def emitEvent_def)
qed

text \<open>
  C5. Choice-sequence completeness. A call of \<^verbatim>\<open>processChoice\<close>, whether it returns or
  throws, appends at most one entry to the ledger of the choosing agent and none to any
  other ledger. For the appended entry there is an encounter of the loaded storyworld
  with the entry's encounter id such that \<^verbatim>\<open>availableChoices\<close> is the list of the ids of all
  choices the encounter declares, in order (no gate is consulted), \<^verbatim>\<open>choiceIndex\<close> is an index
  into that list, and the element at \<^verbatim>\<open>choiceIndex\<close> is the chosen id.
\<close>

theorem choice_sequence_complete:
  "\<exists>new. length new \<le> 1
     \<and> (\<forall>agent. ledger (resultState (processChoice ops s agentId choiceId)) agent
                 = ledger s agent @ (if agent = agentId then new else []))
     \<and> (\<forall>entry \<in> set new.
          \<exists>storyworldId storyworld encounter.
            firstStoryworldId s = Some storyworldId
            \<and> Map_get (eng_storyworlds s) storyworldId = Some storyworld
            \<and> encounter \<in> set (sw_encounters storyworld)
            \<and> cr_encounterId entry = enc_id encounter
            \<and> cr_choiceId entry = choiceId
            \<and> cr_availableChoices entry = map ch_id (enc_choices encounter)
            \<and> 0 \<le> cr_choiceIndex entry
            \<and> cr_choiceIndex entry < int (length (cr_availableChoices entry))
            \<and> cr_availableChoices entry ! nat (cr_choiceIndex entry) = cr_choiceId entry)"
proof -
  let ?s' = "resultState (processChoice ops s agentId choiceId)"
  consider (found) sid sw ws ch enc where
      "firstStoryworldId s = Some sid" "Map_get (eng_storyworlds s) sid = Some sw"
      "Map_get (eng_worldStates s) sid = Some ws"
      "findChoice (sw_encounters sw) choiceId = Some (ch, enc)"
    | (other) "eng_sessionData ?s' = eng_sessionData s"
    using processChoice_cases[of s choiceId ops agentId] by blast
  then show ?thesis
  proof cases
    case found
    let ?new = "if Map_get (eng_sessionData s) agentId \<noteq> None
                then [choiceRecord s choiceId ch enc] else []"
    from findChoice_Some[OF found(4)] have
      enc: "enc \<in> set (sw_encounters sw)" and
      fnd: "find (\<lambda>c. ch_id c = choiceId) (enc_choices enc) = Some ch" and
      cid: "ch_id ch = choiceId" by simp_all
    have led: "ledger ?s' agent = ledger s agent @ (if agent = agentId then ?new else [])" for agent
      using sessionData_processChoice_found[OF found, of ops agentId]
        ledger_recordChoice[of s agentId choiceId ch enc agent]
      by (simp add: ledger_def)
    have idx: "0 \<le> findIndex (\<lambda>c. ch_id c = choiceId) (enc_choices enc)"
      "findIndex (\<lambda>c. ch_id c = choiceId) (enc_choices enc) < int (length (enc_choices enc))"
      "enc_choices enc ! nat (findIndex (\<lambda>c. ch_id c = choiceId) (enc_choices enc)) = ch"
      using findIndex_find[OF fnd] by simp_all
    have good: "\<forall>entry \<in> set ?new.
          \<exists>storyworldId storyworld encounter.
            firstStoryworldId s = Some storyworldId
            \<and> Map_get (eng_storyworlds s) storyworldId = Some storyworld
            \<and> encounter \<in> set (sw_encounters storyworld)
            \<and> cr_encounterId entry = enc_id encounter
            \<and> cr_choiceId entry = choiceId
            \<and> cr_availableChoices entry = map ch_id (enc_choices encounter)
            \<and> 0 \<le> cr_choiceIndex entry
            \<and> cr_choiceIndex entry < int (length (cr_availableChoices entry))
            \<and> cr_availableChoices entry ! nat (cr_choiceIndex entry) = cr_choiceId entry"
      using found(1,2) enc cid idx by (auto simp: choiceRecord_def nth_map)
    have "length ?new \<le> 1" by simp
    with led good show ?thesis by blast
  next
    case other
    then have "\<forall>agent. ledger ?s' agent = ledger s agent @ (if agent = agentId then [] else [])"
      by (simp add: ledger_def)
    then show ?thesis by (intro exI[of _ "[]"]) simp
  qed
qed

text \<open>\<^verbatim>\<open>processChoice\<close> against the expected outcome.\<close>

lemma applyMutation_expected:
  "applyMutation ops ws m a =
     map_option (\<lambda>variables. ws\<lparr>ws_variables := variables\<rparr>)
       (expectedVariable ops (ws_frame ws) a (ws_variables ws) m)"
  by (simp add: applyMutation_def expectedVariable_def expectedValue_def setVariable_def
      getVariable_def Let_def option.map_comp comp_def split: option.splits)

lemma applyMutations_expected:
  assumes "expectedVariables ops (ws_frame ws) a ms (ws_variables ws) = (applied, variables')"
    and "Map_get (eng_worldStates s) sid = Some ws"
  shows "applyMutations ops sid a ms ws s =
     (if applied = length ms then Inr else (\<lambda>s'. Inl (TypeError, s')))
       (s\<lparr>eng_worldStates := Map_set sid (ws\<lparr>ws_variables := variables'\<rparr>) (eng_worldStates s),
          eng_events := eng_events s @ map (variableChanged s a) (take applied ms)\<rparr>)"
  using assms
proof (induction ms arbitrary: ws s applied)
  case Nil
  then show ?case by (simp add: Map_set_same)
next
  case (Cons m ms)
  show ?case
  proof (cases "expectedVariable ops (ws_frame ws) a (ws_variables ws) m")
    case None
    then have "applyMutation ops ws m a = None" by (simp add: applyMutation_expected)
    moreover from None Cons.prems(1) have "applied = 0" "variables' = ws_variables ws" by simp_all
    ultimately show ?thesis using Cons.prems(2) by (simp add: Map_set_same)
  next
    case (Some variables1)
    define ws1 where "ws1 = ws\<lparr>ws_variables := variables1\<rparr>"
    have 1: "applyMutation ops ws m a = Some ws1"
      by (simp add: applyMutation_expected Some ws1_def)
    obtain k where k: "expectedVariables ops (ws_frame ws) a ms variables1 = (k, variables')"
      and applied: "applied = Suc k"
      using Cons.prems(1) Some by (auto split: prod.splits)
    let ?s1 = "emitEvent STATE ''VARIABLE_CHANGED''
               [(''variableId'', PString (mut_variableId m)),
                (''operation'', PString (mut_operation m)),
                (''value'', PValue (mut_value m))] (Some a) (storeWorldState sid ws1 s)"
    have s1: "?s1 = s\<lparr>eng_worldStates := Map_set sid ws1 (eng_worldStates s),
                       eng_events := eng_events s @ [variableChanged s a m]\<rparr>"
      by (simp add: emitEvent_def storeWorldState_def variableChanged_def newEvent_def)
    have k1: "expectedVariables ops (ws_frame ws1) a ms (ws_variables ws1) = (k, variables')"
      using k by (simp add: ws1_def)
    have get: "Map_get (eng_worldStates ?s1) sid = Some ws1"
      by (simp add: s1 Map_get_Map_set)
    have upd: "ws1\<lparr>ws_variables := variables'\<rparr> = ws\<lparr>ws_variables := variables'\<rparr>"
      by (simp add: ws1_def)
    show ?thesis
      using Cons.IH[OF k1 get] 1 by (simp add: s1 applied Map_set_Map_set upd)
  qed
qed

lemma take_1_filter:
  "take 1 (filter P xs) = (case find P xs of None \<Rightarrow> [] | Some x \<Rightarrow> [x])"
  by (induction xs) simp_all

lemma find_None_image: "find (\<lambda>x. f x = k) xs = None \<longleftrightarrow> k \<notin> f ` set xs"
  by (induction xs) auto

lemma variables_setAgentSpools: "ws_variables (setAgentSpools ws a p) = ws_variables ws"
  by (simp add: setAgentSpools_def)

lemma events_storeWorldState: "eng_events (storeWorldState sid ws s) = eng_events s"
  by (simp add: storeWorldState_def)

lemma named_cases:
  "named x = (case x of None \<Rightarrow> None | Some n \<Rightarrow> if n \<noteq> [] then Some n else None)"
  by (cases x rule: named.cases) simp_all

lemma narrativeTransition_cases:
  "narrativeTransition s a ch enc =
     (case transitionOf ch enc of
        Complete sp \<Rightarrow> completeSpool s a sp
      | Advance n \<Rightarrow> advanceToEncounter s a n
      | Enter sp \<Rightarrow> enterSpool s a sp
      | Stay \<Rightarrow> s)"
  by (simp add: narrativeTransition_def transitionOf_def named_cases split: option.splits)

lemma narrativeTransition_expected:
  assumes "firstStoryworldId s = Some sid" "Map_get (eng_storyworlds s) sid = Some sw"
    "Map_get (eng_worldStates s) sid = Some ws"
  shows "eng_events (narrativeTransition s a ch enc) =
           eng_events s @ expectedEvents s sw a (transitionOf ch enc)"
    and "agentProgress (narrativeTransition s a ch enc) b =
           (if b = a
            then expectedProgress sw (sim_currentFrame (eng_simulation s)) a (transitionOf ch enc)
                   (getAgentSpools ws a)
            else getAgentSpools ws b)"
    and "worldVariables (narrativeTransition s a ch enc) = Some (ws_variables ws)"
proof -
  have complete: "eng_events (completeSpool s a sp) =
           eng_events s @ expectedEvents s sw a (Complete sp)
     \<and> agentProgress (completeSpool s a sp) b =
           (if b = a
            then expectedProgress sw (sim_currentFrame (eng_simulation s)) a (Complete sp)
                   (getAgentSpools ws a)
            else getAgentSpools ws b)
     \<and> worldVariables (completeSpool s a sp) = Some (ws_variables ws)" for sp
    using assms
    by (simp add: completeSpool_def Let_def agentProgress_def worldVariables_def
        currentWorldState_def Map_get_Map_set getAgentSpools_setAgentSpools variables_setAgentSpools
        events_storeWorldState)
  have advance: "eng_events (advanceToEncounter s a n) =
           eng_events s @ expectedEvents s sw a (Advance n)
     \<and> agentProgress (advanceToEncounter s a n) b =
           (if b = a
            then expectedProgress sw (sim_currentFrame (eng_simulation s)) a (Advance n)
                   (getAgentSpools ws a)
            else getAgentSpools ws b)
     \<and> worldVariables (advanceToEncounter s a n) = Some (ws_variables ws)" for n
    using assms
    by (simp add: advanceToEncounter_def Let_def agentProgress_def worldVariables_def
        currentWorldState_def Map_get_Map_set getAgentSpools_setAgentSpools variables_setAgentSpools
        events_storeWorldState)
  have enter: "eng_events (enterSpool s a sp) =
           eng_events s @ expectedEvents s sw a (Enter sp)
     \<and> agentProgress (enterSpool s a sp) b =
           (if b = a
            then expectedProgress sw (sim_currentFrame (eng_simulation s)) a (Enter sp)
                   (getAgentSpools ws a)
            else getAgentSpools ws b)
     \<and> worldVariables (enterSpool s a sp) = Some (ws_variables ws)" for sp
  proof (cases "find (\<lambda>spool. sp_id spool = sp) (sw_spools sw)")
    case None
    then have "sp \<notin> sp_id ` set (sw_spools sw)" by (simp add: find_None_image)
    moreover have "take (Suc 0) (filter (\<lambda>spool. sp_id spool = sp) (sw_spools sw)) = []"
      using None take_1_filter[of "\<lambda>spool. sp_id spool = sp" "sw_spools sw"] by simp
    ultimately show ?thesis using None assms
      by (simp add: enterSpool_def agentProgress_def worldVariables_def currentWorldState_def)
  next
    case (Some spool)
    then have "sp \<in> sp_id ` set (sw_spools sw)"
      using find_None_image[of sp_id sp "sw_spools sw"] by simp
    moreover have "take (Suc 0) (filter (\<lambda>spool. sp_id spool = sp) (sw_spools sw)) = [spool]"
      using Some take_1_filter[of "\<lambda>spool. sp_id spool = sp" "sw_spools sw"] by simp
    ultimately show ?thesis using Some assms
      by (simp add: enterSpool_def Let_def agentProgress_def worldVariables_def
          currentWorldState_def Map_get_Map_set getAgentSpools_setAgentSpools
          variables_setAgentSpools events_storeWorldState)
  qed
  have stay: "eng_events s = eng_events s @ expectedEvents s sw a Stay
     \<and> agentProgress s b =
           (if b = a
            then expectedProgress sw (sim_currentFrame (eng_simulation s)) a Stay
                   (getAgentSpools ws a)
            else getAgentSpools ws b)
     \<and> worldVariables s = Some (ws_variables ws)"
    using assms by (simp add: agentProgress_def worldVariables_def currentWorldState_def)
  have all: "eng_events (narrativeTransition s a ch enc) =
           eng_events s @ expectedEvents s sw a (transitionOf ch enc)
     \<and> agentProgress (narrativeTransition s a ch enc) b =
           (if b = a
            then expectedProgress sw (sim_currentFrame (eng_simulation s)) a (transitionOf ch enc)
                   (getAgentSpools ws a)
            else getAgentSpools ws b)
     \<and> worldVariables (narrativeTransition s a ch enc) = Some (ws_variables ws)"
  proof (cases "transitionOf ch enc")
    case (Complete sp)
    then show ?thesis using complete[of sp] by (simp add: narrativeTransition_cases)
  next
    case (Advance n)
    then show ?thesis using advance[of n] by (simp add: narrativeTransition_cases)
  next
    case (Enter sp)
    then show ?thesis using enter[of sp] by (simp add: narrativeTransition_cases)
  next
    case Stay
    then show ?thesis using stay by (simp add: narrativeTransition_cases)
  qed
  from all show "eng_events (narrativeTransition s a ch enc) =
           eng_events s @ expectedEvents s sw a (transitionOf ch enc)"
    and "agentProgress (narrativeTransition s a ch enc) b =
           (if b = a
            then expectedProgress sw (sim_currentFrame (eng_simulation s)) a (transitionOf ch enc)
                   (getAgentSpools ws a)
            else getAgentSpools ws b)"
    and "worldVariables (narrativeTransition s a ch enc) = Some (ws_variables ws)"
    by simp_all
qed

lemma expectedEvents_newEvent:
  "newEvent s' = newEvent s \<Longrightarrow> expectedEvents s' sw a t = expectedEvents s sw a t"
  by (cases t) simp_all

lemma recordChoice_fields:
  "eng_worldStates (recordChoice s a cid ch enc) = eng_worldStates s"
  "eng_events (recordChoice s a cid ch enc) = eng_events s"
  "eng_simulation (recordChoice s a cid ch enc) = eng_simulation s"
  "eng_storyworlds (recordChoice s a cid ch enc) = eng_storyworlds s"
  by (simp_all add: recordChoice_def split: option.splits)

lemma processChoice_expected:
  assumes "firstStoryworldId s = Some sid" "Map_get (eng_storyworlds s) sid = Some sw"
    "Map_get (eng_worldStates s) sid = Some ws" "findChoice (sw_encounters sw) cid = Some (ch, enc)"
    "expectedVariables ops (ws_frame ws) a (ch_mutations ch) (ws_variables ws) = (applied, variables')"
    "s' = resultState (processChoice ops s a cid)"
  shows "worldVariables s' = Some variables'"
    and "applied = length (ch_mutations ch) \<Longrightarrow>
           processChoice ops s a cid = Inr s'
           \<and> eng_events s' = eng_events s @ map (variableChanged s a) (ch_mutations ch)
                @ [choiceMade s a ch enc] @ expectedEvents s sw a (transitionOf ch enc)
           \<and> (\<forall>b. agentProgress s' b =
                 (if b = a
                  then expectedProgress sw (sim_currentFrame (eng_simulation s)) a
                         (transitionOf ch enc) (agentProgress s a)
                  else agentProgress s b))"
    and "applied \<noteq> length (ch_mutations ch) \<Longrightarrow>
           processChoice ops s a cid = Inl (TypeError, s')
           \<and> eng_events s' = eng_events s @ map (variableChanged s a) (take applied (ch_mutations ch))
           \<and> (\<forall>b. agentProgress s' b = agentProgress s b)"
proof -
  define s0 where "s0 = recordChoice s a cid ch enc"
  define ws' where "ws' = ws\<lparr>ws_variables := variables'\<rparr>"
  define st where "st = s0\<lparr>eng_worldStates := Map_set sid ws' (eng_worldStates s),
       eng_events := eng_events s @ map (variableChanged s a) (take applied (ch_mutations ch))\<rparr>"
  have s0: "eng_worldStates s0 = eng_worldStates s" "eng_events s0 = eng_events s"
    "eng_simulation s0 = eng_simulation s" "eng_storyworlds s0 = eng_storyworlds s"
    by (simp_all add: s0_def recordChoice_fields)
  have vc: "variableChanged s0 a = variableChanged s a"
    by (rule ext) (simp add: variableChanged_def newEvent_def s0)
  have get0: "Map_get (eng_worldStates s0) sid = Some ws" using assms(3) by (simp add: s0)
  have loop: "applyMutations ops sid a (ch_mutations ch) ws s0 =
      (if applied = length (ch_mutations ch) then Inr else (\<lambda>s'. Inl (TypeError, s'))) st"
    using applyMutations_expected[OF assms(5) get0] by (simp add: st_def ws'_def s0 vc)
  have st: "eng_simulation st = eng_simulation s" "eng_storyworlds st = eng_storyworlds s"
    "eng_worldStates st = Map_set sid ws' (eng_worldStates s)"
    "eng_events st = eng_events s @ map (variableChanged s a) (take applied (ch_mutations ch))"
    by (simp_all add: st_def s0)
  have before: "agentProgress s b = getAgentSpools ws b" for b
    using assms(1,3) by (simp add: agentProgress_def currentWorldState_def)
  have same: "getAgentSpools ws' b = getAgentSpools ws b" for b
    by (simp add: getAgentSpools_def ws'_def)
  have fst_st: "firstStoryworldId st = Some sid"
    using assms(1) by (simp add: firstStoryworldId_def st)
  have get_st: "Map_get (eng_worldStates st) sid = Some ws'"
    by (simp add: st Map_get_Map_set)
  define s3 where "s3 = emitEvent NARRATIVE ''CHOICE_MADE''
                          [(''encounterId'', PString (enc_id enc)),
                           (''choiceId'', PString (ch_id ch)),
                           (''choiceText'', PString (ch_text ch))] (Some a) st"
  have ne_st: "newEvent st = newEvent s"
    by (intro ext) (simp add: newEvent_def st)
  have s3: "firstStoryworldId s3 = Some sid" "Map_get (eng_storyworlds s3) sid = Some sw"
    "Map_get (eng_worldStates s3) sid = Some ws'"
    "eng_events s3 = eng_events st @ [choiceMade s a ch enc]"
    "eng_simulation s3 = eng_simulation s"
    using fst_st get_st assms(2)
    by (simp_all add: s3_def emitEvent_def firstStoryworldId_def st choiceMade_def ne_st)
  have ne3: "newEvent s3 = newEvent s"
    by (intro ext) (simp add: newEvent_def s3)
  have returns: "applied = length (ch_mutations ch) \<Longrightarrow>
      processChoice ops s a cid = Inr (narrativeTransition s3 a ch enc)"
    using assms(1-4) loop by (simp add: processChoice_def s0_def s3_def)
  have throws: "applied \<noteq> length (ch_mutations ch) \<Longrightarrow>
      processChoice ops s a cid = Inl (TypeError, st)"
    using assms(1-4) loop by (simp add: processChoice_def s0_def)
  have vars_st: "worldVariables st = Some variables'"
    using fst_st get_st by (simp add: worldVariables_def currentWorldState_def ws'_def)
  show "worldVariables s' = Some variables'"
  proof (cases "applied = length (ch_mutations ch)")
    case True
    with returns assms(6) have "s' = narrativeTransition s3 a ch enc" by simp
    then show ?thesis
      using narrativeTransition_expected(3)[OF s3(1-3)] by (simp add: ws'_def)
  next
    case False
    with throws assms(6) have "s' = st" by simp
    then show ?thesis using vars_st by simp
  qed
  show "processChoice ops s a cid = Inr s'
           \<and> eng_events s' = eng_events s @ map (variableChanged s a) (ch_mutations ch)
                @ [choiceMade s a ch enc] @ expectedEvents s sw a (transitionOf ch enc)
           \<and> (\<forall>b. agentProgress s' b =
                 (if b = a
                  then expectedProgress sw (sim_currentFrame (eng_simulation s)) a
                         (transitionOf ch enc) (agentProgress s a)
                  else agentProgress s b))"
    if all: "applied = length (ch_mutations ch)"
  proof -
    from returns[OF all] assms(6) have s': "s' = narrativeTransition s3 a ch enc" by simp
    have ev: "eng_events s' = eng_events s @ map (variableChanged s a) (ch_mutations ch)
                @ [choiceMade s a ch enc] @ expectedEvents s sw a (transitionOf ch enc)"
      unfolding s' narrativeTransition_expected(1)[OF s3(1-3)]
      by (simp add: s3 st all expectedEvents_newEvent[OF ne3])
    have pr: "agentProgress s' b =
                 (if b = a
                  then expectedProgress sw (sim_currentFrame (eng_simulation s)) a
                         (transitionOf ch enc) (agentProgress s a)
                  else agentProgress s b)" for b
      unfolding s' narrativeTransition_expected(2)[OF s3(1-3)]
      by (simp add: s3 same before)
    from returns[OF all] s' ev pr show ?thesis by simp
  qed
  show "processChoice ops s a cid = Inl (TypeError, s')
           \<and> eng_events s' = eng_events s @ map (variableChanged s a) (take applied (ch_mutations ch))
           \<and> (\<forall>b. agentProgress s' b = agentProgress s b)"
    if part: "applied \<noteq> length (ch_mutations ch)"
  proof -
    from throws[OF part] assms(6) have s': "s' = st" by simp
    have pr: "agentProgress s' b = agentProgress s b" for b
      unfolding s' using fst_st get_st
      by (simp add: agentProgress_def currentWorldState_def same before[unfolded agentProgress_def currentWorldState_def])
    from throws[OF part] s' st(4) pr show ?thesis by simp
  qed
qed

text \<open>
  C9, as the code has it. With the first storyworld loaded, whenever the submitted choice id
  occurs in some encounter, \<^verbatim>\<open>processChoice\<close> finds a choice with that id and resolves it,
  with no hypothesis on the gate of the choice, on the agent's current encounter or on the
  agent's spool progress. The choice is recorded in the agent's ledger (when the agent has
  session data, as every agent of the simulation has). The mutations are applied in order
  up to the first that throws, and the variable map is then the expected one. When none
  throws, the call returns: the events added are one \<^verbatim>\<open>VARIABLE_CHANGED\<close> for each mutation,
  \<^verbatim>\<open>CHOICE_MADE\<close> and the event of the transition, the progress of the agent is the expected
  progress after the transition, and the progress of every other agent is unchanged. When
  one throws, the call throws a \<^verbatim>\<open>TypeError\<close>: the events added are the
  \<^verbatim>\<open>VARIABLE_CHANGED\<close> of the mutations before it, and no progress changes.
\<close>

theorem choice_applied_without_availability_check:
  assumes "firstStoryworldId s = Some storyworldId"
    and "Map_get (eng_storyworlds s) storyworldId = Some storyworld"
    and "Map_get (eng_worldStates s) storyworldId = Some ws"
    and "encounter0 \<in> set (sw_encounters storyworld)"
    and "choiceId \<in> ch_id ` set (enc_choices encounter0)"
    and "s' = resultState (processChoice ops s agentId choiceId)"
  shows "\<exists>foundChoice foundEncounter applied variables'.
      findChoice (sw_encounters storyworld) choiceId = Some (foundChoice, foundEncounter)
      \<and> ch_id foundChoice = choiceId
      \<and> foundChoice \<in> set (enc_choices foundEncounter)
      \<and> foundEncounter \<in> set (sw_encounters storyworld)
      \<and> expectedVariables ops (ws_frame ws) agentId (ch_mutations foundChoice) (ws_variables ws)
          = (applied, variables')
      \<and> ledger s' agentId =
          ledger s agentId @
            (if Map_get (eng_sessionData s) agentId = None then []
             else [choiceRecord s choiceId foundChoice foundEncounter])
      \<and> worldVariables s' = Some variables'
      \<and> (if applied = length (ch_mutations foundChoice)
          then processChoice ops s agentId choiceId = Inr s'
             \<and> eng_events s' =
                 eng_events s @ map (variableChanged s agentId) (ch_mutations foundChoice)
                 @ [choiceMade s agentId foundChoice foundEncounter]
                 @ expectedEvents s storyworld agentId (transitionOf foundChoice foundEncounter)
             \<and> (\<forall>other. agentProgress s' other =
                   (if other = agentId
                    then expectedProgress storyworld (sim_currentFrame (eng_simulation s)) agentId
                           (transitionOf foundChoice foundEncounter) (agentProgress s agentId)
                    else agentProgress s other))
          else processChoice ops s agentId choiceId = Inl (TypeError, s')
             \<and> eng_events s' =
                 eng_events s
                 @ map (variableChanged s agentId) (take applied (ch_mutations foundChoice))
             \<and> (\<forall>other. agentProgress s' other = agentProgress s other))"
proof -
  from findChoice_exists[OF assms(4,5)] obtain ch enc where
    found: "findChoice (sw_encounters storyworld) choiceId = Some (ch, enc)" by blast
  note loaded = assms(1-3)
  from findChoice_Some[OF found] have props:
    "ch_id ch = choiceId" "ch \<in> set (enc_choices enc)" "enc \<in> set (sw_encounters storyworld)"
    by simp_all
  obtain applied variables' where
    run: "expectedVariables ops (ws_frame ws) agentId (ch_mutations ch) (ws_variables ws)
          = (applied, variables')"
    by (cases "expectedVariables ops (ws_frame ws) agentId (ch_mutations ch) (ws_variables ws)")
  have led: "ledger s' agentId =
          ledger s agentId @
            (if Map_get (eng_sessionData s) agentId = None then []
             else [choiceRecord s choiceId ch enc])"
    using sessionData_processChoice_found[OF loaded found, of ops agentId]
      ledger_recordChoice[of s agentId choiceId ch enc agentId]
    by (simp add: ledger_def assms(6))
  note outcome = processChoice_expected[OF loaded found run assms(6)]
  have branch: "if applied = length (ch_mutations ch)
          then processChoice ops s agentId choiceId = Inr s'
             \<and> eng_events s' =
                 eng_events s @ map (variableChanged s agentId) (ch_mutations ch)
                 @ [choiceMade s agentId ch enc]
                 @ expectedEvents s storyworld agentId (transitionOf ch enc)
             \<and> (\<forall>other. agentProgress s' other =
                   (if other = agentId
                    then expectedProgress storyworld (sim_currentFrame (eng_simulation s)) agentId
                           (transitionOf ch enc) (agentProgress s agentId)
                    else agentProgress s other))
          else processChoice ops s agentId choiceId = Inl (TypeError, s')
             \<and> eng_events s' =
                 eng_events s
                 @ map (variableChanged s agentId) (take applied (ch_mutations ch))
             \<and> (\<forall>other. agentProgress s' other = agentProgress s other)"
    using outcome(2,3) by (cases "applied = length (ch_mutations ch)") simp_all
  from found props run led outcome(1) branch show ?thesis by blast
qed


lemma running_loaded:
  "firstStoryworldId running = Some ''trust-dilemma''"
  "Map_get (eng_storyworlds running) ''trust-dilemma'' = Some trustDilemma"
  "Map_get (eng_worldStates running) ''trust-dilemma'' = Some (newWorldState trustDilemma)"
  by code_simp+

theorem invalid_choice_atomic_witness:
  "findChoice (sw_encounters trustDilemma) ''bogus'' = None
   \<and> processChoice jsRuntime running ''agent-a'' ''bogus'' =
       Inr (running\<lparr>eng_events := eng_events running @
              [newEvent running SYSTEM ''INVALID_CHOICE'' [(''choiceId'', PString ''bogus'')]
                 (Some ''agent-a'')]\<rparr>)
   \<and> eng_worldStates (afterChoice running ''agent-a'' ''bogus'') = eng_worldStates running
   \<and> eng_sessionData (afterChoice running ''agent-a'' ''bogus'') = eng_sessionData running"
proof -
  have none: "findChoice (sw_encounters trustDilemma) ''bogus'' = None" by code_simp
  then have absent: "\<forall>encounter \<in> set (sw_encounters trustDilemma).
                       ''bogus'' \<notin> ch_id ` set (enc_choices encounter)"
    by (simp add: findChoice_None)
  from invalid_choice_atomic[OF running_loaded absent, of jsRuntime "''agent-a''"] none
  show ?thesis by (simp add: afterChoice_def)
qed

theorem choice_sequence_complete_witness:
  "ledger running ''agent-a'' = []
   \<and> ledger (afterChoice running ''agent-a'' ''propose'') ''agent-a'' =
       [\<lparr>cr_frame = 0, cr_encounterId = ''propose_alliance'', cr_choiceId = ''propose'',
         cr_availableChoices = [''propose'', ''decline''], cr_choiceIndex = 0\<rparr>]
   \<and> map ch_id (getAvailableChoices jsRuntime trustDilemma proposeAlliance
                  (newWorldState trustDilemma) ''agent-a'') = [''decline'']
   \<and> ledger (afterChoice running ''agent-a'' ''propose'') ''agent-b'' = ledger running ''agent-b''"
proof -
  have before: "ledger running ''agent-a'' = []" by code_simp
  have after: "ledger (afterChoice running ''agent-a'' ''propose'') ''agent-a'' =
       [\<lparr>cr_frame = 0, cr_encounterId = ''propose_alliance'', cr_choiceId = ''propose'',
         cr_availableChoices = [''propose'', ''decline''], cr_choiceIndex = 0\<rparr>]"
    by code_simp
  have filtered: "map ch_id (getAvailableChoices jsRuntime trustDilemma proposeAlliance
                  (newWorldState trustDilemma) ''agent-a'') = [''decline'']"
    by code_simp
  from choice_sequence_complete[of jsRuntime running "''agent-a''" "''propose''"]
  have "ledger (afterChoice running ''agent-a'' ''propose'') ''agent-b'' = ledger running ''agent-b''"
    by (auto simp: afterChoice_def)
  with before after filtered show ?thesis by simp
qed

lemma atTaunt_loaded:
  "firstStoryworldId atTaunt = Some ''trust-dilemma''"
  "Map_get (eng_storyworlds atTaunt) ''trust-dilemma'' = Some courtIntrigue"
  "Map_get (eng_worldStates atTaunt) ''trust-dilemma'' =
     Some \<lparr>ws_variables = initializeVariables (sw_variables courtIntrigue),
           ws_spoolProgress =
             [(''agent-a'',
               [\<lparr>pr_spoolId = ''rivalry_arc'', pr_agentId = ''agent-a'', pr_status = ACTIVE,
                 pr_currentEncounterId = Some ''taunt'', pr_enteredAtFrame = 0,
                 pr_completedAtFrame = None, pr_choiceHistory = []\<rparr>])],
           ws_frame = 0\<rparr>"
  by code_simp+

theorem choice_applied_without_availability_check_witness:
  "\<not> evaluate jsRuntime courtIntrigue ''high_trust''
        \<lparr>ws_variables = initializeVariables (sw_variables courtIntrigue),
         ws_spoolProgress =
           [(''agent-a'',
             [\<lparr>pr_spoolId = ''rivalry_arc'', pr_agentId = ''agent-a'', pr_status = ACTIVE,
               pr_currentEncounterId = Some ''taunt'', pr_enteredAtFrame = 0,
               pr_completedAtFrame = None, pr_choiceHistory = []\<rparr>])],
         ws_frame = 0\<rparr> (Some ''agent-a'')
   \<and> map_sum id av_currentEncounter (buildAgentView jsRuntime atTaunt ''agent-a'') = Inr None
   \<and> map_sum id av_availableChoices (buildAgentView jsRuntime atTaunt ''agent-a'') = Inr []
   \<and> agentProgress atTaunt ''agent-a'' =
       [\<lparr>pr_spoolId = ''rivalry_arc'', pr_agentId = ''agent-a'', pr_status = ACTIVE,
         pr_currentEncounterId = Some ''taunt'', pr_enteredAtFrame = 0,
         pr_completedAtFrame = None, pr_choiceHistory = []\<rparr>]
   \<and> findChoice (sw_encounters courtIntrigue) ''pledge'' = Some (pledgeChoice, council)
   \<and> ch_gateId pledgeChoice = Some ''high_trust''
   \<and> processChoice jsRuntime atTaunt ''agent-a'' ''pledge''
       = Inr (afterChoice atTaunt ''agent-a'' ''pledge'')
   \<and> ledger (afterChoice atTaunt ''agent-a'' ''pledge'') ''agent-a'' =
       ledger atTaunt ''agent-a'' @
       [\<lparr>cr_frame = 0, cr_encounterId = ''council'', cr_choiceId = ''pledge'',
         cr_availableChoices = [''pledge'', ''mixup''], cr_choiceIndex = 0\<rparr>]
   \<and> map_option (map (\<lambda>(k, v). (k, vs_value v, vs_modifiedBy v)))
         (worldVariables (afterChoice atTaunt ''agent-a'' ''pledge'')) =
       Some [(''trust_level'', JNum 90, Some ''agent-a''),
             (''pact'', JBool False, None),
             (''betrayed'', JBool True, Some ''agent-a''),
             (''hideout'', JStr ''tower'', Some ''agent-a''),
             (''allies'', JArr [JStr ''beta''], Some ''agent-a'')]
   \<and> map ev_eventType (eng_events (afterChoice atTaunt ''agent-a'' ''pledge'')) =
       map ev_eventType (eng_events atTaunt) @
       [''VARIABLE_CHANGED'', ''VARIABLE_CHANGED'', ''VARIABLE_CHANGED'', ''VARIABLE_CHANGED'',
        ''VARIABLE_CHANGED'', ''VARIABLE_CHANGED'', ''VARIABLE_CHANGED'', ''CHOICE_MADE'',
        ''SPOOL_COMPLETED'']
   \<and> agentProgress (afterChoice atTaunt ''agent-a'' ''pledge'') ''agent-a'' =
       [\<lparr>pr_spoolId = ''rivalry_arc'', pr_agentId = ''agent-a'', pr_status = COMPLETED,
         pr_currentEncounterId = Some ''taunt'', pr_enteredAtFrame = 0,
         pr_completedAtFrame = Some 0, pr_choiceHistory = []\<rparr>]
   \<and> agentProgress (afterChoice atTaunt ''agent-a'' ''pledge'') ''agent-b''
       = agentProgress atTaunt ''agent-b''
   \<and> findChoice (sw_encounters courtIntrigue) ''propose'' = Some (proposeChoice, proposeAlliance)
   \<and> enc_spoolId proposeAlliance = ''alliance_arc''
   \<and> processChoice jsRuntime atTaunt ''agent-a'' ''propose''
       = Inr (afterChoice atTaunt ''agent-a'' ''propose'')
   \<and> variableValue atTaunt ''trust_level'' = Some (JNum 50)
   \<and> variableValue (afterChoice atTaunt ''agent-a'' ''propose'') ''trust_level'' = Some (JNum 75)
   \<and> map ev_eventType (eng_events (afterChoice atTaunt ''agent-a'' ''propose'')) =
       map ev_eventType (eng_events atTaunt) @
       [''VARIABLE_CHANGED'', ''CHOICE_MADE'', ''ENCOUNTER_STARTED'']
   \<and> agentProgress (afterChoice atTaunt ''agent-a'' ''propose'') ''agent-a'' =
       [\<lparr>pr_spoolId = ''rivalry_arc'', pr_agentId = ''agent-a'', pr_status = ACTIVE,
         pr_currentEncounterId = Some ''negotiate_terms'', pr_enteredAtFrame = 0,
         pr_completedAtFrame = None, pr_choiceHistory = []\<rparr>]"
proof -
  define ws where "ws =
       \<lparr>ws_variables = initializeVariables (sw_variables courtIntrigue),
         ws_spoolProgress =
           [(''agent-a'',
             [\<lparr>pr_spoolId = ''rivalry_arc'', pr_agentId = ''agent-a'', pr_status = ACTIVE,
               pr_currentEncounterId = Some ''taunt'', pr_enteredAtFrame = 0,
               pr_completedAtFrame = None, pr_choiceHistory = []\<rparr>])],
         ws_frame = (0::int)\<rparr>"
  have closedGate: "\<not> evaluate jsRuntime courtIntrigue ''high_trust'' ws (Some ''agent-a'')"
    unfolding ws_def by code_simp
  have view: "map_sum id av_currentEncounter (buildAgentView jsRuntime atTaunt ''agent-a'') = Inr None"
    "map_sum id av_availableChoices (buildAgentView jsRuntime atTaunt ''agent-a'') = Inr []"
    by code_simp+
  have progress: "agentProgress atTaunt ''agent-a'' =
       [\<lparr>pr_spoolId = ''rivalry_arc'', pr_agentId = ''agent-a'', pr_status = ACTIVE,
         pr_currentEncounterId = Some ''taunt'', pr_enteredAtFrame = 0,
         pr_completedAtFrame = None, pr_choiceHistory = []\<rparr>]"
    by code_simp
  have present: "council \<in> set (sw_encounters courtIntrigue)"
    "''pledge'' \<in> ch_id ` set (enc_choices council)"
    by code_simp+
  have found: "findChoice (sw_encounters courtIntrigue) ''pledge'' = Some (pledgeChoice, council)"
    by code_simp
  have session: "Map_get (eng_sessionData atTaunt) ''agent-a'' \<noteq> None" by code_simp
  have frame: "sim_currentFrame (eng_simulation atTaunt) = 0"
    "sim_id (eng_simulation atTaunt) = ''sim-2''" by code_simp+
  have mutations: "expectedVariables jsRuntime (ws_frame ws) ''agent-a'' (ch_mutations pledgeChoice)
        (ws_variables ws) =
      (7, [(''trust_level'',
            \<lparr>vs_variableId = ''trust_level'', vs_value = JNum 90,
             vs_lastModifiedFrame = 0, vs_modifiedBy = Some ''agent-a''\<rparr>),
           (''pact'',
            \<lparr>vs_variableId = ''pact'', vs_value = JBool False,
             vs_lastModifiedFrame = 0, vs_modifiedBy = None\<rparr>),
           (''betrayed'',
            \<lparr>vs_variableId = ''betrayed'', vs_value = JBool True,
             vs_lastModifiedFrame = 0, vs_modifiedBy = Some ''agent-a''\<rparr>),
           (''hideout'',
            \<lparr>vs_variableId = ''hideout'', vs_value = JStr ''tower'',
             vs_lastModifiedFrame = 0, vs_modifiedBy = Some ''agent-a''\<rparr>),
           (''allies'',
            \<lparr>vs_variableId = ''allies'', vs_value = JArr [JStr ''beta''],
             vs_lastModifiedFrame = 0, vs_modifiedBy = Some ''agent-a''\<rparr>)])"
    unfolding ws_def by code_simp
  have count: "length (ch_mutations pledgeChoice) = 7" by (simp add: pledgeChoice_def)
  have transition: "transitionOf pledgeChoice council = Complete ''rivalry_arc''"
    by (simp add: transitionOf_def pledgeChoice_def council_def)
  from choice_applied_without_availability_check
    [OF atTaunt_loaded[folded ws_def] present, where s' = "afterChoice atTaunt ''agent-a'' ''pledge''"
       and ops = jsRuntime and agentId = "''agent-a''"]
  have outcome: "processChoice jsRuntime atTaunt ''agent-a'' ''pledge''
       = Inr (afterChoice atTaunt ''agent-a'' ''pledge'')"
    "ledger (afterChoice atTaunt ''agent-a'' ''pledge'') ''agent-a'' =
       ledger atTaunt ''agent-a'' @ [choiceRecord atTaunt ''pledge'' pledgeChoice council]"
    "worldVariables (afterChoice atTaunt ''agent-a'' ''pledge'') =
       Some (snd (expectedVariables jsRuntime (ws_frame ws) ''agent-a'' (ch_mutations pledgeChoice)
        (ws_variables ws)))"
    "eng_events (afterChoice atTaunt ''agent-a'' ''pledge'') =
       eng_events atTaunt @ map (variableChanged atTaunt ''agent-a'') (ch_mutations pledgeChoice)
       @ [choiceMade atTaunt ''agent-a'' pledgeChoice council]
       @ expectedEvents atTaunt courtIntrigue ''agent-a'' (Complete ''rivalry_arc'')"
    "\<forall>other. agentProgress (afterChoice atTaunt ''agent-a'' ''pledge'') other =
       (if other = ''agent-a''
        then expectedProgress courtIntrigue 0 ''agent-a'' (Complete ''rivalry_arc'')
               (agentProgress atTaunt ''agent-a'')
        else agentProgress atTaunt other)"
    using found session mutations count transition frame
    by (auto simp: afterChoice_def)
  have entry: "choiceRecord atTaunt ''pledge'' pledgeChoice council =
       \<lparr>cr_frame = 0, cr_encounterId = ''council'', cr_choiceId = ''pledge'',
         cr_availableChoices = [''pledge'', ''mixup''], cr_choiceIndex = 0\<rparr>"
    by (simp add: choiceRecord_def frame council_def pledgeChoice_def mixupChoice_def)
  have eventTypes: "map ev_eventType (eng_events (afterChoice atTaunt ''agent-a'' ''pledge'')) =
       map ev_eventType (eng_events atTaunt) @
       [''VARIABLE_CHANGED'', ''VARIABLE_CHANGED'', ''VARIABLE_CHANGED'', ''VARIABLE_CHANGED'',
        ''VARIABLE_CHANGED'', ''VARIABLE_CHANGED'', ''VARIABLE_CHANGED'', ''CHOICE_MADE'',
        ''SPOOL_COMPLETED'']"
    unfolding outcome(4)
    by (simp add: pledgeChoice_def variableChanged_def choiceMade_def newEvent_def)
  have after: "agentProgress (afterChoice atTaunt ''agent-a'' ''pledge'') ''agent-a'' =
       [\<lparr>pr_spoolId = ''rivalry_arc'', pr_agentId = ''agent-a'', pr_status = COMPLETED,
         pr_currentEncounterId = Some ''taunt'', pr_enteredAtFrame = 0,
         pr_completedAtFrame = Some 0, pr_choiceHistory = []\<rparr>]"
    "agentProgress (afterChoice atTaunt ''agent-a'' ''pledge'') ''agent-b''
       = agentProgress atTaunt ''agent-b''"
    using outcome(5) by (simp_all add: progress)
  have variables: "map_option (map (\<lambda>(k, v). (k, vs_value v, vs_modifiedBy v)))
         (worldVariables (afterChoice atTaunt ''agent-a'' ''pledge'')) =
       Some [(''trust_level'', JNum 90, Some ''agent-a''),
             (''pact'', JBool False, None),
             (''betrayed'', JBool True, Some ''agent-a''),
             (''hideout'', JStr ''tower'', Some ''agent-a''),
             (''allies'', JArr [JStr ''beta''], Some ''agent-a'')]"
    unfolding outcome(3) mutations by simp
  have present': "proposeAlliance \<in> set (sw_encounters courtIntrigue)"
    "''propose'' \<in> ch_id ` set (enc_choices proposeAlliance)"
    by code_simp+
  have found': "findChoice (sw_encounters courtIntrigue) ''propose''
                = Some (proposeChoice, proposeAlliance)"
    by code_simp
  have mutations': "expectedVariables jsRuntime (ws_frame ws) ''agent-a''
        (ch_mutations proposeChoice) (ws_variables ws) =
      (1, [(''trust_level'',
            \<lparr>vs_variableId = ''trust_level'', vs_value = JNum 75,
             vs_lastModifiedFrame = 0, vs_modifiedBy = Some ''agent-a''\<rparr>),
           (''pact'',
            \<lparr>vs_variableId = ''pact'', vs_value = JBool False,
             vs_lastModifiedFrame = 0, vs_modifiedBy = None\<rparr>),
           (''betrayed'',
            \<lparr>vs_variableId = ''betrayed'', vs_value = JBool False,
             vs_lastModifiedFrame = 0, vs_modifiedBy = None\<rparr>),
           (''hideout'',
            \<lparr>vs_variableId = ''hideout'', vs_value = JStr ''cave'',
             vs_lastModifiedFrame = 0, vs_modifiedBy = None\<rparr>),
           (''allies'',
            \<lparr>vs_variableId = ''allies'', vs_value = JArr [JStr ''gamma''],
             vs_lastModifiedFrame = 0, vs_modifiedBy = None\<rparr>)])"
    unfolding ws_def by code_simp
  have count': "length (ch_mutations proposeChoice) = 1" by (simp add: proposeChoice_def)
  have transition': "transitionOf proposeChoice proposeAlliance = Advance ''negotiate_terms''"
    by (simp add: transitionOf_def proposeChoice_def)
  from choice_applied_without_availability_check
    [OF atTaunt_loaded[folded ws_def] present', where s' = "afterChoice atTaunt ''agent-a'' ''propose''"
       and ops = jsRuntime and agentId = "''agent-a''"]
  have outcome': "processChoice jsRuntime atTaunt ''agent-a'' ''propose''
       = Inr (afterChoice atTaunt ''agent-a'' ''propose'')"
    "worldVariables (afterChoice atTaunt ''agent-a'' ''propose'') =
       Some (snd (expectedVariables jsRuntime (ws_frame ws) ''agent-a''
        (ch_mutations proposeChoice) (ws_variables ws)))"
    "eng_events (afterChoice atTaunt ''agent-a'' ''propose'') =
       eng_events atTaunt @ map (variableChanged atTaunt ''agent-a'') (ch_mutations proposeChoice)
       @ [choiceMade atTaunt ''agent-a'' proposeChoice proposeAlliance]
       @ expectedEvents atTaunt courtIntrigue ''agent-a'' (Advance ''negotiate_terms'')"
    "\<forall>other. agentProgress (afterChoice atTaunt ''agent-a'' ''propose'') other =
       (if other = ''agent-a''
        then expectedProgress courtIntrigue 0 ''agent-a'' (Advance ''negotiate_terms'')
               (agentProgress atTaunt ''agent-a'')
        else agentProgress atTaunt other)"
    using found' mutations' count' transition' frame
    by (auto simp: afterChoice_def)
  have eventTypes': "map ev_eventType (eng_events (afterChoice atTaunt ''agent-a'' ''propose'')) =
       map ev_eventType (eng_events atTaunt) @
       [''VARIABLE_CHANGED'', ''CHOICE_MADE'', ''ENCOUNTER_STARTED'']"
    unfolding outcome'(3)
    by (simp add: proposeChoice_def variableChanged_def choiceMade_def newEvent_def)
  have after': "agentProgress (afterChoice atTaunt ''agent-a'' ''propose'') ''agent-a'' =
       [\<lparr>pr_spoolId = ''rivalry_arc'', pr_agentId = ''agent-a'', pr_status = ACTIVE,
         pr_currentEncounterId = Some ''negotiate_terms'', pr_enteredAtFrame = 0,
         pr_completedAtFrame = None, pr_choiceHistory = []\<rparr>]"
    using outcome'(4) by (simp add: progress)
  have trustBefore: "variableValue atTaunt ''trust_level'' = Some (JNum 50)" by code_simp
  have trustAfter: "variableValue (afterChoice atTaunt ''agent-a'' ''propose'') ''trust_level''
                    = Some (JNum 75)"
    using outcome'(2) unfolding mutations'
    by (auto simp: variableValue_def worldVariables_def getVariable_def)
  have pledged: "ch_gateId pledgeChoice = Some ''high_trust''"
    "enc_spoolId proposeAlliance = ''alliance_arc''"
    by (simp_all add: pledgeChoice_def proposeAlliance_def)
  from closedGate view progress found outcome(1) outcome(2) entry variables eventTypes after
    found' outcome'(1) trustBefore trustAfter eventTypes' after' pledged
  show ?thesis unfolding ws_def by simp
qed

text \<open>
  C9, as the claim has it, fails. The choice \<^verbatim>\<open>mixup\<close> exists in the encounter
  \<^verbatim>\<open>council\<close>; its second mutation appends to the number \<^verbatim>\<open>trust_level\<close>, and the spread
  of a number throws. \<^verbatim>\<open>processChoice\<close> throws: the choice is in the ledger, the first
  addition is applied and the third is not, no \<^verbatim>\<open>CHOICE_MADE\<close> event follows, and the ACTIVE
  entry of the agent stays at \<^verbatim>\<open>taunt\<close> although the choice names \<^verbatim>\<open>negotiate_terms\<close>.
\<close>

theorem mutation_throws_counterexample:
  "findChoice (sw_encounters courtIntrigue) ''mixup'' = Some (mixupChoice, council)
   \<and> map mut_operation (ch_mutations mixupChoice) = [''ADD'', ''APPEND'', ''ADD'']
   \<and> ch_nextEncounterId mixupChoice = Some ''negotiate_terms''
   \<and> variableValue atTaunt ''trust_level'' = Some (JNum 50)
   \<and> map pr_status (agentProgress atTaunt ''agent-a'') = [ACTIVE]
   \<and> map_sum fst (\<lambda>s. ()) (processChoice jsRuntime atTaunt ''agent-a'' ''mixup'') = Inl TypeError
   \<and> variableValue (afterChoice atTaunt ''agent-a'' ''mixup'') ''trust_level'' = Some (JNum 75)
   \<and> map ev_eventType (eng_events (afterChoice atTaunt ''agent-a'' ''mixup'')) =
       map ev_eventType (eng_events atTaunt) @ [''VARIABLE_CHANGED'']
   \<and> map pr_currentEncounterId (agentProgress (afterChoice atTaunt ''agent-a'' ''mixup'') ''agent-a'')
       = [Some ''taunt'']
   \<and> map cr_choiceId (ledger (afterChoice atTaunt ''agent-a'' ''mixup'') ''agent-a'')
       = [''join_rivalry'', ''mixup'']"
  by code_simp




section \<open>Current encounter and session export\<close>

lemma getCurrentEncounter_status:
  "getCurrentEncounter storyworld agentId (map (\<lambda>p. p\<lparr>pr_status := status p\<rparr>) activeSpools)
   = getCurrentEncounter storyworld agentId activeSpools"
  by (induction activeSpools) (auto split: option.splits)

text \<open>
  C8, what the code does. \<^verbatim>\<open>getCurrentEncounter\<close> never reads the status of a progress
  entry: an entry whose current-encounter id is set and names an encounter of the storyworld
  supplies the current encounter whatever its status, and rewriting the statuses of a
  progress list leaves the current encounter as it was. In the example an agent that has
  completed its only spool by a terminal choice is still shown the terminal encounter and
  its choices.
\<close>

theorem current_encounter_from_any_status:
  assumes "pr_currentEncounterId progress = Some encounterId"
    and "encounterId \<noteq> []"
    and "find (\<lambda>e. enc_id e = encounterId) (sw_encounters storyworld) = Some encounter"
  shows "getCurrentEncounter storyworld agentId (progress\<lparr>pr_status := status\<rparr> # rest)
           = Some encounter
       \<and> getCurrentEncounter storyworld agentId
           (map (\<lambda>p. p\<lparr>pr_status := statusOf p\<rparr>) activeSpools)
           = getCurrentEncounter storyworld agentId activeSpools"
  using assms by (simp add: getCurrentEncounter_status)

theorem current_encounter_from_any_status_witness:
  "map pr_status (agentProgress afterDecline ''agent-a'') = [COMPLETED]
   \<and> map pr_currentEncounterId (agentProgress afterDecline ''agent-a'') = [Some ''propose_alliance'']
   \<and> getCurrentEncounter trustDilemma ''agent-a'' (agentProgress afterDecline ''agent-a'')
       = Some proposeAlliance
   \<and> map_sum id av_currentEncounter (buildAgentView jsRuntime afterDecline ''agent-a'')
       = Inr (Some proposeAlliance)
   \<and> map_sum id (map ch_id \<circ> av_availableChoices) (buildAgentView jsRuntime afterDecline ''agent-a'')
       = Inr [''decline'']"
proof -
  let ?entry = "\<lparr>pr_spoolId = ''alliance_arc'', pr_agentId = ''agent-a'', pr_status = ACTIVE,
                 pr_currentEncounterId = Some ''propose_alliance'', pr_enteredAtFrame = 0,
                 pr_completedAtFrame = Some 0, pr_choiceHistory = []\<rparr>"
  have progress: "agentProgress afterDecline ''agent-a'' = [?entry\<lparr>pr_status := COMPLETED\<rparr>]"
    by code_simp
  have resolves: "find (\<lambda>e. enc_id e = ''propose_alliance'') (sw_encounters trustDilemma)
                  = Some proposeAlliance"
    by code_simp
  have view: "map_sum id av_currentEncounter (buildAgentView jsRuntime afterDecline ''agent-a'')
       = Inr (Some proposeAlliance)"
    "map_sum id (map ch_id \<circ> av_availableChoices) (buildAgentView jsRuntime afterDecline ''agent-a'')
       = Inr [''decline'']"
    by code_simp+
  from current_encounter_from_any_status
    [where progress = ?entry and encounterId = "''propose_alliance''"
       and storyworld = trustDilemma and encounter = proposeAlliance and agentId = "''agent-a''"
       and status = COMPLETED and rest = "[]", OF _ _ resolves]
  have "getCurrentEncounter trustDilemma ''agent-a'' [?entry\<lparr>pr_status := COMPLETED\<rparr>]
        = Some proposeAlliance" by simp
  with progress view show ?thesis by simp
qed

lemma exportLoop_erase:
  "map (\<lambda>outcome. outcome\<lparr>so_sessionId := []\<rparr>) (exportLoop uuid n agents s)
   = map (\<lambda>outcome. outcome\<lparr>so_sessionId := []\<rparr>) (exportLoop uuid' n' agents s)"
  by (induction agents arbitrary: n n') (auto simp: Let_def split: option.splits)

lemma exportLoop_sessionIds:
  "map so_sessionId (exportLoop uuid n agents s)
   = map uuid [n ..< n + length (exportLoop uuid n agents s)]"
proof (induction agents arbitrary: n)
  case Nil
  then show ?case by simp
next
  case (Cons agent agents)
  show ?case
  proof (cases "Map_get (eng_sessionData s) (ag_id agent)")
    case None
    with Cons.IH[of n] show ?thesis by simp
  next
    case (Some sessionData)
    have "[n ..< n + Suc k] = n # [Suc n ..< Suc n + k]" for k
      by (simp add: upt_conv_Cons)
    with Some Cons.IH[of "Suc n"] show ?thesis by (simp add: Let_def)
  qed
qed

lemma exportLoop_agents:
  "map so_agentId (exportLoop uuid n agents s)
   = filter (\<lambda>a. Map_get (eng_sessionData s) a \<noteq> None) (map ag_id agents)"
  by (induction agents arbitrary: n) (auto simp: Let_def split: option.splits)

text \<open>
  C6, as the code has it. Two exports from the same engine state give lists that agree in
  every field but \<^verbatim>\<open>sessionId\<close>: the session id of the \<open>n\<close>-th outcome is the \<open>n\<close>-th
  value that \<^verbatim>\<open>uuid()\<close> returns during that call. There is one outcome per agent slot
  that has session data, in the order of the slots.
\<close>

theorem export_equal_up_to_session_ids:
  "map (\<lambda>outcome. outcome\<lparr>so_sessionId := []\<rparr>) (exportSessionOutcomes uuid s)
     = map (\<lambda>outcome. outcome\<lparr>so_sessionId := []\<rparr>) (exportSessionOutcomes uuid' s)
   \<and> map so_sessionId (exportSessionOutcomes uuid s)
     = map uuid [0 ..< length (exportSessionOutcomes uuid s)]
   \<and> map so_agentId (exportSessionOutcomes uuid s)
     = filter (\<lambda>a. Map_get (eng_sessionData s) a \<noteq> None) (map ag_id (sim_agents (eng_simulation s)))"
  using exportLoop_erase[of uuid 0 _ s uuid' 0] exportLoop_sessionIds[of uuid 0 _ s]
    exportLoop_agents[of uuid 0 _ s]
  by (simp add: exportSessionOutcomes_def)

theorem export_equal_up_to_session_ids_witness:
  "map (\<lambda>outcome. outcome\<lparr>so_sessionId := []\<rparr>) (exportSessionOutcomes uuidsOfFirstCall running)
     = map (\<lambda>outcome. outcome\<lparr>so_sessionId := []\<rparr>) (exportSessionOutcomes uuidsOfSecondCall running)
   \<and> map so_sessionId (exportSessionOutcomes uuidsOfFirstCall running) = [''1st-'', ''1st-i'']
   \<and> map so_agentId (exportSessionOutcomes uuidsOfFirstCall running) = [''agent-a'', ''agent-b'']"
proof -
  have len: "length (exportSessionOutcomes uuidsOfFirstCall running) = 2" by code_simp
  have ids: "map uuidsOfFirstCall [0 ..< 2] = [''1st-'', ''1st-i'']" by code_simp
  have agents: "filter (\<lambda>a. Map_get (eng_sessionData running) a \<noteq> None)
                  (map ag_id (sim_agents (eng_simulation running))) = [''agent-a'', ''agent-b'']"
    by code_simp
  from export_equal_up_to_session_ids[of uuidsOfFirstCall running uuidsOfSecondCall]
  show ?thesis using len ids agents by simp
qed

text \<open>
  C6, as the claim has it, fails: \<^verbatim>\<open>uuid()\<close> returns new values at the second export, so
  the two lists differ in their session ids.
\<close>

theorem export_idempotent_counterexample:
  "map so_sessionId (exportSessionOutcomes uuidsOfFirstCall running) = [''1st-'', ''1st-i'']
   \<and> map so_sessionId (exportSessionOutcomes uuidsOfSecondCall running) = [''2nd-'', ''2nd-i'']
   \<and> exportSessionOutcomes uuidsOfFirstCall running
       \<noteq> exportSessionOutcomes uuidsOfSecondCall running"
proof -
  have 1: "map so_sessionId (exportSessionOutcomes uuidsOfFirstCall running) = [''1st-'', ''1st-i'']"
    by code_simp
  have 2: "map so_sessionId (exportSessionOutcomes uuidsOfSecondCall running) = [''2nd-'', ''2nd-i'']"
    by code_simp
  have "exportSessionOutcomes uuidsOfFirstCall running
        \<noteq> exportSessionOutcomes uuidsOfSecondCall running"
  proof
    assume "exportSessionOutcomes uuidsOfFirstCall running
            = exportSessionOutcomes uuidsOfSecondCall running"
    then have "map so_sessionId (exportSessionOutcomes uuidsOfFirstCall running)
             = map so_sessionId (exportSessionOutcomes uuidsOfSecondCall running)" by simp
    with 1 2 show False by simp
  qed
  with 1 2 show ?thesis by simp
qed

section \<open>Agent views\<close>















end
